theory Spec2Isabelle
  imports Complex_Main "HOL-Library.Sublist"
begin

section \<open>Python numbers\<close>

text \<open>
  The five classes compute with Python numbers. An \<^verbatim>\<open>int\<close> is unbounded and is modelled
  by \<^typ>\<open>int\<close>. A \<^verbatim>\<open>float\<close> is a \<open>pyfloat\<close>: a finite value, plus or minus infinity,
  or NaN. A finite value is a real number and finite arithmetic is exact: rounding to 53
  bits, overflow of a finite result to an infinity and the sign of zero are not modelled.
  The infinities and NaN behave as in Python: every comparison with NaN is false,
  \<open>inf - inf\<close> and \<open>inf * 0\<close> are NaN.

  A field holds the type its class documents (a float for \<open>balance\<close>, \<open>interestRate\<close>,
  \<open>fuel_level\<close> and \<open>waterLevel\<close>; an int for \<open>coffeeBeans\<close> and \<open>pageCount\<close>), except
  \<open>batteryLevel\<close>, which \<open>charge\<close> and \<open>useBattery\<close> turn into a float when they are
  given one. A numeric argument of a method is a \<open>pynum\<close>, an int or a float, as the
  demonstration code passes both. Where a method tests \<^verbatim>\<open>isinstance(x, (int, float))\<close>
  its argument is a \<open>pyval\<close>: a number or some other object (\<open>NotNum\<close>: \<^verbatim>\<open>None\<close>, a
  string, a list, ...); a \<^verbatim>\<open>bool\<close> is not modelled apart from the ints 0 and 1.

  With float fields, every number a message formats with \<^verbatim>\<open>:.2f\<close> or \<^verbatim>\<open>:.1f\<close> is
  a float, or an int that the method has already converted to a float, so building a
  message never raises. An object built with an int where a float is documented is
  outside this model.
\<close>

datatype pyfloat = Fin real | PInf | NInf | NaN

datatype pynum = PyInt int | PyFloat pyfloat

datatype pyval = Num pynum | NotNum

datatype py_error = ValueError string | OverflowError string | ZeroDivisionError string

subsection \<open>Float arithmetic\<close>

fun fneg :: "pyfloat \<Rightarrow> pyfloat" where
  "fneg (Fin a) = Fin (- a)"
| "fneg PInf = NInf"
| "fneg NInf = PInf"
| "fneg NaN = NaN"

fun fadd :: "pyfloat \<Rightarrow> pyfloat \<Rightarrow> pyfloat" where
  "fadd NaN y = NaN"
| "fadd x NaN = NaN"
| "fadd (Fin a) (Fin b) = Fin (a + b)"
| "fadd PInf NInf = NaN"
| "fadd NInf PInf = NaN"
| "fadd PInf y = PInf"
| "fadd NInf y = NInf"
| "fadd (Fin a) y = y"

definition fsub :: "pyfloat \<Rightarrow> pyfloat \<Rightarrow> pyfloat" where
  "fsub x y = fadd x (fneg y)"

fun fmul :: "pyfloat \<Rightarrow> pyfloat \<Rightarrow> pyfloat" where
  "fmul NaN y = NaN"
| "fmul x NaN = NaN"
| "fmul (Fin a) (Fin b) = Fin (a * b)"
| "fmul (Fin a) y = (if a = 0 then NaN else if 0 < a then y else fneg y)"
| "fmul x (Fin b) = (if b = 0 then NaN else if 0 < b then x else fneg x)"
| "fmul PInf y = y"
| "fmul NInf y = fneg y"

text \<open>\<^verbatim>\<open>x / y\<close> on floats raises when the divisor is zero.\<close>

fun fdiv :: "pyfloat \<Rightarrow> pyfloat \<Rightarrow> py_error + pyfloat" where
  "fdiv x (Fin b) =
     (if b = 0 then Inl (ZeroDivisionError ''float division by zero'')
      else Inr (fmul x (Fin (1 / b))))"
| "fdiv NaN y = Inr NaN"
| "fdiv x NaN = Inr NaN"
| "fdiv (Fin a) y = Inr (Fin 0)"
| "fdiv x y = Inr NaN"

text \<open>\<^verbatim>\<open>x < y\<close> and \<^verbatim>\<open>x <= y\<close> on floats.\<close>

fun flt :: "pyfloat \<Rightarrow> pyfloat \<Rightarrow> bool" where
  "flt NaN y = False"
| "flt x NaN = False"
| "flt (Fin a) (Fin b) = (a < b)"
| "flt (Fin a) PInf = True"
| "flt (Fin a) NInf = False"
| "flt PInf y = False"
| "flt NInf NInf = False"
| "flt NInf y = True"

fun fle :: "pyfloat \<Rightarrow> pyfloat \<Rightarrow> bool" where
  "fle NaN y = False"
| "fle x NaN = False"
| "fle (Fin a) (Fin b) = (a \<le> b)"
| "fle (Fin a) PInf = True"
| "fle (Fin a) NInf = False"
| "fle PInf PInf = True"
| "fle PInf y = False"
| "fle NInf y = True"

text \<open>\<^verbatim>\<open>min(a, b)\<close> and \<^verbatim>\<open>max(a, b)\<close> return the first argument unless the second is
  strictly smaller (larger).\<close>

definition fmin :: "pyfloat \<Rightarrow> pyfloat \<Rightarrow> pyfloat" where
  "fmin a b = (if flt b a then b else a)"

definition fmax :: "pyfloat \<Rightarrow> pyfloat \<Rightarrow> pyfloat" where
  "fmax a b = (if flt a b then b else a)"

subsection \<open>Ints and floats together\<close>

text \<open>
  Arithmetic of an int with a float first converts the int. The conversion raises
  \<open>OverflowError\<close> for an int that rounds to a magnitude of \<open>2 ^ 1024\<close> or more, that
  is from \<open>2 ^ 1024 - 2 ^ 970\<close> on.
\<close>

definition float_limit :: int where
  "float_limit = 2 ^ 1024 - 2 ^ 970"

fun to_float :: "pynum \<Rightarrow> py_error + pyfloat" where
  "to_float (PyFloat x) = Inr x"
| "to_float (PyInt i) =
     (if float_limit \<le> \<bar>i\<bar> then Inl (OverflowError ''int too large to convert to float'')
      else Inr (Fin (of_int i)))"

text \<open>
  A float holds every int of magnitude up to \<open>2 ^ 53\<close> exactly. The conversion of a
  larger int rounds; \<open>to_float\<close> does not, so what is said about the float a number
  converts to is said of the numbers that convert without rounding.
\<close>

definition converts_exactly :: "pynum \<Rightarrow> bool" where
  "converts_exactly n = (case n of PyFloat x \<Rightarrow> True | PyInt i \<Rightarrow> \<bar>i\<bar> \<le> 2 ^ 53)"

text \<open>\<^verbatim>\<open>a + b\<close> and \<^verbatim>\<open>a - b\<close>: an int when both operands are ints, a float otherwise.\<close>

fun py_add :: "pynum \<Rightarrow> pynum \<Rightarrow> py_error + pynum" where
  "py_add (PyInt a) (PyInt b) = Inr (PyInt (a + b))"
| "py_add a b =
     (case to_float a of
        Inl e \<Rightarrow> Inl e
      | Inr x \<Rightarrow> (case to_float b of Inl e \<Rightarrow> Inl e | Inr y \<Rightarrow> Inr (PyFloat (fadd x y))))"

fun py_sub :: "pynum \<Rightarrow> pynum \<Rightarrow> py_error + pynum" where
  "py_sub (PyInt a) (PyInt b) = Inr (PyInt (a - b))"
| "py_sub a b =
     (case to_float a of
        Inl e \<Rightarrow> Inl e
      | Inr x \<Rightarrow> (case to_float b of Inl e \<Rightarrow> Inl e | Inr y \<Rightarrow> Inr (PyFloat (fsub x y))))"

text \<open>Comparisons of an int with a float are exact and never raise: \<open>exact\<close> is the
  number as a point of the extended real line (or NaN).\<close>

fun exact :: "pynum \<Rightarrow> pyfloat" where
  "exact (PyInt i) = Fin (of_int i)"
| "exact (PyFloat x) = x"

definition py_lt :: "pynum \<Rightarrow> pynum \<Rightarrow> bool" where
  "py_lt a b = flt (exact a) (exact b)"

definition py_le :: "pynum \<Rightarrow> pynum \<Rightarrow> bool" where
  "py_le a b = fle (exact a) (exact b)"

definition py_gt :: "pynum \<Rightarrow> pynum \<Rightarrow> bool" where
  "py_gt a b = py_lt b a"

definition py_min :: "pynum \<Rightarrow> pynum \<Rightarrow> pynum" where
  "py_min a b = (if py_lt b a then b else a)"

definition py_max :: "pynum \<Rightarrow> pynum \<Rightarrow> pynum" where
  "py_max a b = (if py_gt b a then b else a)"

text \<open>\<^verbatim>\<open>int(x)\<close> truncates a finite float towards zero and raises for NaN and the
  infinities.\<close>

fun py_int :: "pynum \<Rightarrow> py_error + int" where
  "py_int (PyInt i) = Inr i"
| "py_int (PyFloat (Fin r)) = Inr (if 0 \<le> r then \<lfloor>r\<rfloor> else \<lceil>r\<rceil>)"
| "py_int (PyFloat NaN) = Inl (ValueError ''cannot convert float NaN to integer'')"
| "py_int (PyFloat x) = Inl (OverflowError ''cannot convert float infinity to integer'')"

subsection \<open>Text of a number\<close>

text \<open>\<^verbatim>\<open>str\<close> of an int, in decimal.\<close>

definition digit_char :: "nat \<Rightarrow> char" where
  "digit_char d = ''0123456789'' ! d"

fun show_nat :: "nat \<Rightarrow> string" where
  "show_nat n = (if n < 10 then [digit_char n] else show_nat (n div 10) @ [digit_char (n mod 10)])"

declare show_nat.simps [simp del]

definition show_int :: "int \<Rightarrow> string" where
  "show_int i = (if i < 0 then CHR ''-'' # show_nat (nat (- i)) else show_nat (nat i))"

text \<open>\<^verbatim>\<open>str\<close> of a number; the text of a float is Python's own (\<open>float_str\<close>, a parameter).\<close>

fun py_str :: "(pyfloat \<Rightarrow> string) \<Rightarrow> pynum \<Rightarrow> string" where
  "py_str float_str (PyInt i) = show_int i"
| "py_str float_str (PyFloat x) = float_str x"


section \<open>bank\_account.py\<close>

record BankAccount =
  accountNumber :: string
  balance :: pyfloat
  accountHolder :: string
  interestRate :: pyfloat
  isActive :: bool

text \<open>What a method prints; the numbers are those the f-string formats with \<^verbatim>\<open>:.2f\<close>.\<close>

datatype bank_msg =
    ClosedNoTransactions      \<comment> \<open>Account is closed. Cannot perform transactions.\<close>
  | DepositNotPositive        \<comment> \<open>Deposit amount must be positive.\<close>
  | Deposited pynum pyfloat   \<comment> \<open>Deposited $amount. New balance: $balance\<close>
  | WithdrawalNotPositive     \<comment> \<open>Withdrawal amount must be positive.\<close>
  | InsufficientFunds         \<comment> \<open>Insufficient funds.\<close>
  | Withdrew pynum pyfloat    \<comment> \<open>Withdrew $amount. New balance: $balance\<close>
  | ClosedNoInterest          \<comment> \<open>Account is closed. Cannot calculate interest.\<close>
  | InterestCalculated pyfloat pyfloat  \<comment> \<open>Interest calculated: $interest. New balance: $balance\<close>
  | HasBeenClosed string      \<comment> \<open>Account accountNumber has been closed.\<close>

definition BankAccount_init :: "string \<Rightarrow> string \<Rightarrow> pyfloat \<Rightarrow> pyfloat \<Rightarrow> BankAccount" where
  "BankAccount_init account_number account_holder initial_balance interest_rate =
     \<lparr>accountNumber = account_number, balance = initial_balance,
      accountHolder = account_holder, interestRate = interest_rate, isActive = True\<rparr>"

text \<open>
  \<open>deposit\<close> and \<open>withdraw\<close> return (value returned, line printed) and the object after
  the call, or the exception raised by \<^verbatim>\<open>self.balance += amount\<close> and
  \<^verbatim>\<open>self.balance -= amount\<close> for an int too large for a float; the exception leaves the
  object as it was.
\<close>

definition deposit :: "pynum \<Rightarrow> BankAccount \<Rightarrow> py_error + ((bool \<times> bank_msg) \<times> BankAccount)" where
  "deposit amount self =
     (if \<not> isActive self then Inr ((False, ClosedNoTransactions), self)
      else if py_le amount (PyInt 0) then Inr ((False, DepositNotPositive), self)
      else case to_float amount of
             Inl e \<Rightarrow> Inl e
           | Inr a \<Rightarrow>
               (let self' = self\<lparr>balance := fadd (balance self) a\<rparr>
                in Inr ((True, Deposited amount (balance self')), self')))"

definition withdraw :: "pynum \<Rightarrow> BankAccount \<Rightarrow> py_error + ((bool \<times> bank_msg) \<times> BankAccount)" where
  "withdraw amount self =
     (if \<not> isActive self then Inr ((False, ClosedNoTransactions), self)
      else if py_le amount (PyInt 0) then Inr ((False, WithdrawalNotPositive), self)
      else if py_gt amount (PyFloat (balance self)) then Inr ((False, InsufficientFunds), self)
      else case to_float amount of
             Inl e \<Rightarrow> Inl e
           | Inr a \<Rightarrow>
               (let self' = self\<lparr>balance := fsub (balance self) a\<rparr>
                in Inr ((True, Withdrew amount (balance self')), self')))"

definition calculateInterest :: "BankAccount \<Rightarrow> bank_msg \<times> BankAccount" where
  "calculateInterest self =
     (if \<not> isActive self then (ClosedNoInterest, self)
      else (let interest = fmul (balance self) (interestRate self);
                self' = self\<lparr>balance := fadd (balance self) interest\<rparr>
            in (InterestCalculated interest (balance self'), self')))"

definition closeAccount :: "BankAccount \<Rightarrow> bank_msg \<times> BankAccount" where
  "closeAccount self = (HasBeenClosed (accountNumber self), self\<lparr>isActive := False\<rparr>)"

definition getBalance :: "BankAccount \<Rightarrow> pyfloat" where
  "getBalance self = balance self"

text \<open>A call of one of the methods that can change the account, and the account after
  it; a call that raises leaves the account as it was.\<close>

datatype bank_call = Deposit pynum | Withdraw pynum | CalculateInterest | CloseAccount

fun bank_exec :: "bank_call \<Rightarrow> BankAccount \<Rightarrow> BankAccount" where
  "bank_exec (Deposit amount) self =
     (case deposit amount self of Inl e \<Rightarrow> self | Inr r \<Rightarrow> snd r)"
| "bank_exec (Withdraw amount) self =
     (case withdraw amount self of Inl e \<Rightarrow> self | Inr r \<Rightarrow> snd r)"
| "bank_exec CalculateInterest self = snd (calculateInterest self)"
| "bank_exec CloseAccount self = snd (closeAccount self)"

text \<open>Whether the call reports failure: an exception, \<^verbatim>\<open>False\<close> returned, or the
  refusal printed.\<close>

fun bank_failed :: "bank_call \<Rightarrow> BankAccount \<Rightarrow> bool" where
  "bank_failed (Deposit amount) self =
     (case deposit amount self of Inl e \<Rightarrow> True | Inr r \<Rightarrow> \<not> fst (fst r))"
| "bank_failed (Withdraw amount) self =
     (case withdraw amount self of Inl e \<Rightarrow> True | Inr r \<Rightarrow> \<not> fst (fst r))"
| "bank_failed CalculateInterest self = (fst (calculateInterest self) = ClosedNoInterest)"
| "bank_failed CloseAccount self = False"


section \<open>book.py\<close>

record Book =
  title :: string
  author :: string
  isbn :: string
  pageCount :: int
  isCheckedOut :: bool

definition Book_init :: "string \<Rightarrow> string \<Rightarrow> string \<Rightarrow> int \<Rightarrow> Book" where
  "Book_init title' author' isbn' pageCount' =
     \<lparr>title = title', author = author', isbn = isbn', pageCount = pageCount',
      isCheckedOut = False\<rparr>"

definition checkOut :: "Book \<Rightarrow> bool \<times> Book" where
  "checkOut self =
     (if \<not> isCheckedOut self then (True, self\<lparr>isCheckedOut := True\<rparr>) else (False, self))"

definition returnBook :: "Book \<Rightarrow> bool \<times> Book" where
  "returnBook self =
     (if isCheckedOut self then (True, self\<lparr>isCheckedOut := False\<rparr>) else (False, self))"

definition getSummary :: "Book \<Rightarrow> string" where
  "getSummary self =
     ''Title: '' @ title self @ '', Author: '' @ author self @ '', ISBN: '' @ isbn self"

text \<open>\<^verbatim>\<open>setPageCount\<close> raises unless the argument is an int greater than zero.\<close>

definition setPageCount :: "pyval \<Rightarrow> Book \<Rightarrow> py_error + Book" where
  "setPageCount newCount self =
     (case newCount of
        Num (PyInt n) \<Rightarrow>
          if n \<le> 0 then Inl (ValueError ''Page count must be a positive integer'')
          else Inr (self\<lparr>pageCount := n\<rparr>)
      | _ \<Rightarrow> Inl (ValueError ''Page count must be a positive integer''))"

definition isAvailable :: "Book \<Rightarrow> bool" where
  "isAvailable self = (\<not> isCheckedOut self)"

definition str_Book :: "Book \<Rightarrow> string" where
  "str_Book self =
     (let status = (if isAvailable self then ''Available'' else ''Checked Out'')
      in title self @ '' by '' @ author self @ '' ('' @ isbn self @ '') - ''
         @ show_int (pageCount self) @ '' pages - '' @ status)"

datatype book_call = CheckOut | ReturnBook | SetPageCount pyval

fun book_exec :: "book_call \<Rightarrow> Book \<Rightarrow> Book" where
  "book_exec CheckOut self = snd (checkOut self)"
| "book_exec ReturnBook self = snd (returnBook self)"
| "book_exec (SetPageCount n) self =
     (case setPageCount n self of Inl e \<Rightarrow> self | Inr self' \<Rightarrow> self')"

fun book_failed :: "book_call \<Rightarrow> Book \<Rightarrow> bool" where
  "book_failed CheckOut self = (\<not> fst (checkOut self))"
| "book_failed ReturnBook self = (\<not> fst (returnBook self))"
| "book_failed (SetPageCount n) self = isl (setPageCount n self)"


section \<open>car.py\<close>

text \<open>The field \<^verbatim>\<open>make\<close> is \<open>car_make\<close> here (a record already has a constant \<open>make\<close>).\<close>

record Car =
  car_make :: string
  model :: string
  year :: int
  color :: string
  fuel_level :: pyfloat
  is_engine_on :: bool

text \<open>The strings the methods return; the numbers are those the f-strings format.\<close>

datatype car_msg =
    EngineStarted             \<comment> \<open>Engine started successfully.\<close>
  | CannotStart               \<comment> \<open>Cannot start engine: insufficient fuel.\<close>
  | EngineStopped             \<comment> \<open>Engine stopped.\<close>
  | CannotDrive               \<comment> \<open>Cannot drive: engine is not running. Please start the engine first.\<close>
  | InvalidDistance           \<comment> \<open>Invalid distance. Please enter a positive value.\<close>
  | RanOutOfFuel pyfloat pyfloat  \<comment> \<open>Ran out of fuel after driving actual\_distance units. Engine stopped. Fuel level: fuel\_level\<close>
  | Drove pynum pyfloat       \<comment> \<open>Drove distance units. Remaining fuel: fuel\_level\<close>
  | InvalidFuelAmount         \<comment> \<open>Invalid fuel amount. Please enter a positive value.\<close>
  | Refueled pyfloat          \<comment> \<open>Refueled. Current fuel level: fuel\_level\<close>

definition Car_init :: "string \<Rightarrow> string \<Rightarrow> int \<Rightarrow> string \<Rightarrow> pyfloat \<Rightarrow> bool \<Rightarrow> Car" where
  "Car_init make' model' year' color' fuel_level' is_engine_on' =
     \<lparr>car_make = make', model = model', year = year', color = color',
      fuel_level = fuel_level', is_engine_on = is_engine_on'\<rparr>"

definition start_engine :: "Car \<Rightarrow> car_msg \<times> Car" where
  "start_engine self =
     (if flt (Fin 0) (fuel_level self) then (EngineStarted, self\<lparr>is_engine_on := True\<rparr>)
      else (CannotStart, self))"

definition stop_engine :: "Car \<Rightarrow> car_msg \<times> Car" where
  "stop_engine self = (EngineStopped, self\<lparr>is_engine_on := False\<rparr>)"

text \<open>\<^verbatim>\<open>distance * 1.0\<close> converts an int distance and raises for one too large for a
  float, before any field is assigned.\<close>

definition drive :: "pynum \<Rightarrow> Car \<Rightarrow> py_error + (car_msg \<times> Car)" where
  "drive distance self =
     (if \<not> is_engine_on self then Inr (CannotDrive, self)
      else if py_le distance (PyInt 0) then Inr (InvalidDistance, self)
      else case to_float distance of
             Inl e \<Rightarrow> Inl e
           | Inr d \<Rightarrow>
               (let fuel_consumption = fmul d (Fin 1)
                in if flt (fuel_level self) fuel_consumption
                   then (case fdiv (fuel_level self) (Fin 1) of
                           Inl e \<Rightarrow> Inl e
                         | Inr actual_distance \<Rightarrow>
                             (let self' = self\<lparr>fuel_level := Fin 0, is_engine_on := False\<rparr>
                              in Inr (RanOutOfFuel actual_distance (fuel_level self'), self')))
                   else (let self' = self\<lparr>fuel_level := fsub (fuel_level self) fuel_consumption\<rparr>
                         in Inr (Drove distance (fuel_level self'), self'))))"

definition refuel :: "pynum \<Rightarrow> Car \<Rightarrow> py_error + (car_msg \<times> Car)" where
  "refuel amount self =
     (if py_le amount (PyInt 0) then Inr (InvalidFuelAmount, self)
      else case to_float amount of
             Inl e \<Rightarrow> Inl e
           | Inr a \<Rightarrow>
               (let self' = self\<lparr>fuel_level := fmin (Fin 100) (fadd (fuel_level self) a)\<rparr>
                in Inr (Refueled (fuel_level self'), self')))"

datatype car_call = StartEngine | StopEngine | Drive pynum | Refuel pynum

fun car_call_result :: "car_call \<Rightarrow> Car \<Rightarrow> py_error + (car_msg \<times> Car)" where
  "car_call_result StartEngine self = Inr (start_engine self)"
| "car_call_result StopEngine self = Inr (stop_engine self)"
| "car_call_result (Drive distance) self = drive distance self"
| "car_call_result (Refuel amount) self = refuel amount self"

text \<open>The car after a call; a call that raises leaves the car as it was.\<close>

definition car_exec :: "car_call \<Rightarrow> Car \<Rightarrow> Car" where
  "car_exec c self = (case car_call_result c self of Inl e \<Rightarrow> self | Inr r \<Rightarrow> snd r)"

text \<open>The returned strings that refuse the request (\<open>Cannot ...\<close>, \<open>Invalid ...\<close>).\<close>

fun car_refusal :: "car_msg \<Rightarrow> bool" where
  "car_refusal CannotStart = True"
| "car_refusal CannotDrive = True"
| "car_refusal InvalidDistance = True"
| "car_refusal InvalidFuelAmount = True"
| "car_refusal _ = False"

text \<open>Whether the call reports failure: an exception or a refusal.\<close>

definition car_failed :: "car_call \<Rightarrow> Car \<Rightarrow> bool" where
  "car_failed c self =
     (case car_call_result c self of Inl e \<Rightarrow> True | Inr r \<Rightarrow> car_refusal (fst r))"


section \<open>coffee\_maker.py\<close>

record cup_spec =
  water :: int
  beans :: int

text \<open>The class attribute \<^verbatim>\<open>CUP_SIZES\<close>: water in ml, beans in grams.\<close>

definition CUP_SIZES :: "string \<rightharpoonup> cup_spec" where
  "CUP_SIZES =
     [''small'' \<mapsto> \<lparr>water = 120, beans = 8\<rparr>,
      ''medium'' \<mapsto> \<lparr>water = 180, beans = 12\<rparr>,
      ''large'' \<mapsto> \<lparr>water = 240, beans = 16\<rparr>]"

record CoffeeMaker =
  brand :: string
  waterLevel :: pyfloat
  coffeeBeans :: int
  isOn :: bool
  cupSize :: string
  maxWaterCapacity :: pyfloat
  maxBeansCapacity :: int

datatype cm_msg =
    TurnedOff                     \<comment> \<open>Coffee maker is turned off\<close>
  | InvalidCupSize string         \<comment> \<open>Invalid cup size: cupSize\<close>
  | NotEnoughWater pyfloat pyfloat  \<comment> \<open>Not enough water. Need required\_water L, have waterLevel L\<close>
  | NotEnoughBeans int int        \<comment> \<open>Not enough coffee beans. Need required\_beans g, have coffeeBeans g\<close>
  | Brewed string pyfloat int     \<comment> \<open>Successfully brewed cupSize coffee! Water: .. L, Beans: .. g remaining\<close>
  | WaterNotPositive              \<comment> \<open>Water amount must be a positive number\<close>
  | WaterTankFull pyfloat pyfloat  \<comment> \<open>Water tank full. Added (amount - overflow) L, overflow L overflow\<close>
  | AddedWater pynum pyfloat      \<comment> \<open>Added amount L water. Current level: waterLevel L\<close>
  | BeansNotPositive              \<comment> \<open>Bean amount must be a positive number\<close>
  | BeanStorageFull int int       \<comment> \<open>Bean storage full. Added (amount - overflow) g, overflow g overflow\<close>
  | AddedBeans int int            \<comment> \<open>Added amount g coffee beans. Current amount: coffeeBeans g\<close>

text \<open>The dict \<^verbatim>\<open>{"success": ..., "message": ...}\<close> that brew, refillWater and addBeans return.\<close>

record cm_result =
  success :: bool
  message :: cm_msg

definition CoffeeMaker_init :: "string \<Rightarrow> pyfloat \<Rightarrow> int \<Rightarrow> string \<Rightarrow> CoffeeMaker" where
  "CoffeeMaker_init brand' waterLevel' coffeeBeans' cupSize' =
     \<lparr>brand = brand', waterLevel = fmax (Fin 0) waterLevel', coffeeBeans = max 0 coffeeBeans',
      isOn = False,
      cupSize = (if cupSize' \<in> dom CUP_SIZES then cupSize' else ''medium''),
      maxWaterCapacity = Fin 2, maxBeansCapacity = 500\<rparr>"

definition turnOn :: "CoffeeMaker \<Rightarrow> bool \<times> CoffeeMaker" where
  "turnOn self = (if \<not> isOn self then (True, self\<lparr>isOn := True\<rparr>) else (False, self))"

definition turnOff :: "CoffeeMaker \<Rightarrow> bool \<times> CoffeeMaker" where
  "turnOff self = (if isOn self then (True, self\<lparr>isOn := False\<rparr>) else (False, self))"

text \<open>\<^verbatim>\<open>water / 1000.0\<close> divides an int of the table, far below the float range, by a
  non-zero constant, so it cannot raise: \<open>brew\<close> always returns.\<close>

definition brew :: "CoffeeMaker \<Rightarrow> cm_result \<times> CoffeeMaker" where
  "brew self =
     (if \<not> isOn self then (\<lparr>success = False, message = TurnedOff\<rparr>, self)
      else case CUP_SIZES (cupSize self) of
        None \<Rightarrow> (\<lparr>success = False, message = InvalidCupSize (cupSize self)\<rparr>, self)
      | Some spec \<Rightarrow>
          (let required_water = Fin (of_int (water spec) / 1000);
               required_beans = beans spec
           in if flt (waterLevel self) required_water
              then (\<lparr>success = False,
                     message = NotEnoughWater required_water (waterLevel self)\<rparr>, self)
              else if coffeeBeans self < required_beans
              then (\<lparr>success = False,
                     message = NotEnoughBeans required_beans (coffeeBeans self)\<rparr>, self)
              else (let self' = self\<lparr>waterLevel := fsub (waterLevel self) required_water,
                                       coffeeBeans := coffeeBeans self - required_beans\<rparr>
                    in (\<lparr>success = True,
                         message = Brewed (cupSize self') (waterLevel self') (coffeeBeans self')\<rparr>,
                        self'))))"

text \<open>\<^verbatim>\<open>self.waterLevel + amount\<close> raises for an int amount too large for a float,
  before any field is assigned.\<close>

definition refillWater :: "pyval \<Rightarrow> CoffeeMaker \<Rightarrow> py_error + (cm_result \<times> CoffeeMaker)" where
  "refillWater amount self =
     (case amount of
        NotNum \<Rightarrow> Inr (\<lparr>success = False, message = WaterNotPositive\<rparr>, self)
      | Num n \<Rightarrow>
          if py_le n (PyInt 0) then Inr (\<lparr>success = False, message = WaterNotPositive\<rparr>, self)
          else (case to_float n of
                 Inl e \<Rightarrow> Inl e
               | Inr a \<Rightarrow>
                   if flt (maxWaterCapacity self) (fadd (waterLevel self) a)
                   then (let overflow = fsub (fadd (waterLevel self) a) (maxWaterCapacity self);
                             self' = self\<lparr>waterLevel := maxWaterCapacity self\<rparr>
                         in Inr (\<lparr>success = False,
                                  message = WaterTankFull (fsub a overflow) overflow\<rparr>, self'))
                   else (let self' = self\<lparr>waterLevel := fadd (waterLevel self) a\<rparr>
                         in Inr (\<lparr>success = True,
                                  message = AddedWater n (waterLevel self')\<rparr>, self'))))"

text \<open>\<^verbatim>\<open>int(amount)\<close> raises for NaN and an infinity, before any field is assigned.\<close>

definition addBeans :: "pyval \<Rightarrow> CoffeeMaker \<Rightarrow> py_error + (cm_result \<times> CoffeeMaker)" where
  "addBeans amount self =
     (case amount of
        NotNum \<Rightarrow> Inr (\<lparr>success = False, message = BeansNotPositive\<rparr>, self)
      | Num n \<Rightarrow>
          if py_le n (PyInt 0) then Inr (\<lparr>success = False, message = BeansNotPositive\<rparr>, self)
          else (case py_int n of
                 Inl e \<Rightarrow> Inl e
               | Inr amount' \<Rightarrow>
                   if coffeeBeans self + amount' > maxBeansCapacity self
                   then (let overflow = (coffeeBeans self + amount') - maxBeansCapacity self;
                             self' = self\<lparr>coffeeBeans := maxBeansCapacity self\<rparr>
                         in Inr (\<lparr>success = False,
                                  message = BeanStorageFull (amount' - overflow) overflow\<rparr>, self'))
                   else (let self' = self\<lparr>coffeeBeans := coffeeBeans self + amount'\<rparr>
                         in Inr (\<lparr>success = True,
                                  message = AddedBeans amount' (coffeeBeans self')\<rparr>, self'))))"

definition setCupSize :: "string \<Rightarrow> CoffeeMaker \<Rightarrow> bool \<times> CoffeeMaker" where
  "setCupSize size' self =
     (if size' \<in> dom CUP_SIZES then (True, self\<lparr>cupSize := size'\<rparr>) else (False, self))"

definition canBrew :: "CoffeeMaker \<Rightarrow> bool" where
  "canBrew self =
     (if \<not> isOn self \<or> cupSize self \<notin> dom CUP_SIZES then False
      else case CUP_SIZES (cupSize self) of
        None \<Rightarrow> False
      | Some spec \<Rightarrow>
          fle (Fin (of_int (water spec) / 1000)) (waterLevel self)
          \<and> coffeeBeans self \<ge> beans spec)"

text \<open>\<^verbatim>\<open>__str__\<close>; \<open>fmt2f\<close> is Python's \<^verbatim>\<open>:.2f\<close> format of a float, a parameter.\<close>

definition str_CoffeeMaker :: "(pyfloat \<Rightarrow> string) \<Rightarrow> CoffeeMaker \<Rightarrow> string" where
  "str_CoffeeMaker fmt2f self =
     (let status = (if isOn self then ''ON'' else ''OFF'');
          can_brew = (if canBrew self then ''Ready'' else ''Not Ready'')
      in brand self @ '' Coffee Maker - '' @ status @ '' - Water: '' @ fmt2f (waterLevel self)
         @ ''L - Beans: '' @ show_int (coffeeBeans self) @ ''g - Cup: '' @ cupSize self
         @ '' - '' @ can_brew)"

datatype cm_call = TurnOn | TurnOff | Brew | RefillWater pyval | AddBeans pyval | SetCupSize string

text \<open>The coffee maker after a call; a call that raises leaves it as it was.\<close>

fun cm_exec :: "cm_call \<Rightarrow> CoffeeMaker \<Rightarrow> CoffeeMaker" where
  "cm_exec TurnOn self = snd (turnOn self)"
| "cm_exec TurnOff self = snd (turnOff self)"
| "cm_exec Brew self = snd (brew self)"
| "cm_exec (RefillWater amount) self =
     (case refillWater amount self of Inl e \<Rightarrow> self | Inr r \<Rightarrow> snd r)"
| "cm_exec (AddBeans amount) self =
     (case addBeans amount self of Inl e \<Rightarrow> self | Inr r \<Rightarrow> snd r)"
| "cm_exec (SetCupSize s) self = snd (setCupSize s self)"

fun cm_failed :: "cm_call \<Rightarrow> CoffeeMaker \<Rightarrow> bool" where
  "cm_failed TurnOn self = (\<not> fst (turnOn self))"
| "cm_failed TurnOff self = (\<not> fst (turnOff self))"
| "cm_failed Brew self = (\<not> success (fst (brew self)))"
| "cm_failed (RefillWater amount) self =
     (case refillWater amount self of Inl e \<Rightarrow> True | Inr r \<Rightarrow> \<not> success (fst r))"
| "cm_failed (AddBeans amount) self =
     (case addBeans amount self of Inl e \<Rightarrow> True | Inr r \<Rightarrow> \<not> success (fst r))"
| "cm_failed (SetCupSize s) self = (\<not> fst (setCupSize s self))"


section \<open>smartphone.py\<close>

text \<open>The field \<^verbatim>\<open>_correctPin\<close> is \<open>correctPin\<close> here.\<close>

record Smartphone =
  brand :: string
  model :: string
  storageCapacity :: int
  batteryLevel :: pynum
  isLocked :: bool
  correctPin :: string

definition Smartphone_init :: "string \<Rightarrow> string \<Rightarrow> int \<Rightarrow> pynum \<Rightarrow> Smartphone" where
  "Smartphone_init brand' model' storageCapacity' batteryLevel' =
     \<lparr>brand = brand', model = model', storageCapacity = storageCapacity',
      batteryLevel = py_max (PyInt 0) (py_min (PyInt 100) batteryLevel'),
      isLocked = True, correctPin = ''1234''\<rparr>"

text \<open>\<^verbatim>\<open>unlock(pin=None)\<close>: \<open>None\<close> is the omitted argument.\<close>

definition unlock :: "string option \<Rightarrow> Smartphone \<Rightarrow> bool \<times> Smartphone" where
  "unlock pin self =
     (let pin' = (case pin of None \<Rightarrow> ''1234'' | Some p \<Rightarrow> p)
      in if pin' = correctPin self then (True, self\<lparr>isLocked := False\<rparr>) else (False, self))"

definition lock :: "Smartphone \<Rightarrow> bool \<times> Smartphone" where
  "lock self = (True, self\<lparr>isLocked := True\<rparr>)"

text \<open>\<open>charge\<close> and \<open>useBattery\<close> raise \<open>ValueError\<close> themselves, and the sum or
  difference raises \<open>OverflowError\<close> when a float meets an int too large for a float.\<close>

definition charge :: "pyval \<Rightarrow> Smartphone \<Rightarrow> py_error + (pynum \<times> Smartphone)" where
  "charge amount self =
     (case amount of
        NotNum \<Rightarrow> Inl (ValueError ''Charge amount must be a non-negative number'')
      | Num a \<Rightarrow>
          if py_lt a (PyInt 0)
          then Inl (ValueError ''Charge amount must be a non-negative number'')
          else (case py_add (batteryLevel self) a of
                 Inl e \<Rightarrow> Inl e
               | Inr s \<Rightarrow>
                   (let self' = self\<lparr>batteryLevel := py_min (PyInt 100) s\<rparr>
                    in Inr (batteryLevel self', self'))))"

definition useBattery :: "pyval \<Rightarrow> Smartphone \<Rightarrow> py_error + (pynum \<times> Smartphone)" where
  "useBattery amount self =
     (case amount of
        NotNum \<Rightarrow> Inl (ValueError ''Battery usage amount must be a non-negative number'')
      | Num a \<Rightarrow>
          if py_lt a (PyInt 0)
          then Inl (ValueError ''Battery usage amount must be a non-negative number'')
          else (case py_sub (batteryLevel self) a of
                 Inl e \<Rightarrow> Inl e
               | Inr d \<Rightarrow>
                   (let self' = self\<lparr>batteryLevel := py_max (PyInt 0) d\<rparr>
                    in Inr (batteryLevel self', self'))))"

definition getSpecs :: "Smartphone \<Rightarrow> string" where
  "getSpecs self =
     ''Brand: '' @ Smartphone.brand self @ '', Model: '' @ Smartphone.model self
     @ '', Storage: '' @ show_int (storageCapacity self) @ ''GB''"

definition getBatteryStatus :: "Smartphone \<Rightarrow> string" where
  "getBatteryStatus self =
     (if py_gt (batteryLevel self) (PyInt 80) then ''Excellent''
      else if py_gt (batteryLevel self) (PyInt 50) then ''Good''
      else if py_gt (batteryLevel self) (PyInt 20) then ''Low''
      else if py_gt (batteryLevel self) (PyInt 10) then ''Critical''
      else ''Very Low'')"

definition str_Smartphone :: "(pyfloat \<Rightarrow> string) \<Rightarrow> Smartphone \<Rightarrow> string" where
  "str_Smartphone float_str self =
     (let lock_status = (if isLocked self then ''Locked'' else ''Unlocked'');
          battery_status = getBatteryStatus self
      in Smartphone.brand self @ '' '' @ Smartphone.model self @ '' (''
         @ show_int (storageCapacity self) @ ''GB) - Battery: ''
         @ py_str float_str (batteryLevel self) @ ''% ('' @ battery_status @ '') - ''
         @ lock_status)"

datatype phone_call = Unlock "string option" | Lock | Charge pyval | UseBattery pyval

text \<open>The phone after a call; a call that raises leaves the object as it was.\<close>

fun phone_exec :: "phone_call \<Rightarrow> Smartphone \<Rightarrow> Smartphone" where
  "phone_exec (Unlock pin) self = snd (unlock pin self)"
| "phone_exec Lock self = snd (lock self)"
| "phone_exec (Charge amount) self =
     (case charge amount self of Inl e \<Rightarrow> self | Inr r \<Rightarrow> snd r)"
| "phone_exec (UseBattery amount) self =
     (case useBattery amount self of Inl e \<Rightarrow> self | Inr r \<Rightarrow> snd r)"

fun phone_failed :: "phone_call \<Rightarrow> Smartphone \<Rightarrow> bool" where
  "phone_failed (Unlock pin) self = (\<not> fst (unlock pin self))"
| "phone_failed Lock self = (\<not> fst (lock self))"
| "phone_failed (Charge amount) self = isl (charge amount self)"
| "phone_failed (UseBattery amount) self = isl (useBattery amount self)"


section \<open>Sequences of calls\<close>

text \<open>The object after a sequence of method calls, made one after the other.\<close>

definition bank_run :: "bank_call list \<Rightarrow> BankAccount \<Rightarrow> BankAccount" where
  "bank_run calls self = fold bank_exec calls self"

definition car_run :: "car_call list \<Rightarrow> Car \<Rightarrow> Car" where
  "car_run calls self = fold car_exec calls self"

definition phone_run :: "phone_call list \<Rightarrow> Smartphone \<Rightarrow> Smartphone" where
  "phone_run calls self = fold phone_exec calls self"


section \<open>The objects of the demonstration code\<close>

text \<open>The objects each file builds under \<^verbatim>\<open>if __name__ == "__main__"\<close>.\<close>

definition demo_account :: BankAccount where
  "demo_account = BankAccount_init ''ACC001'' ''John Doe'' (Fin 1000) (Fin 0.02)"

definition demo_book :: Book where
  "demo_book = Book_init ''The Great Gatsby'' ''F. Scott Fitzgerald'' ''978-0-7432-7356-5'' 180"

definition demo_car :: Car where
  "demo_car = Car_init ''Toyota'' ''Camry'' 2023 ''Blue'' (Fin 100) False"

definition demo_coffee_maker :: CoffeeMaker where
  "demo_coffee_maker = CoffeeMaker_init ''Keurig'' (Fin 1.5) 150 ''medium''"

definition demo_phone :: Smartphone where
  "demo_phone = Smartphone_init ''Apple'' ''iPhone 14'' 256 (PyInt 85)"


section \<open>Facts about Python numbers\<close>

lemma to_float_exact: "to_float n = Inr x \<Longrightarrow> exact n = x"
  by (cases n) (auto split: if_splits)

lemma to_float_converts_exactly: "converts_exactly n \<Longrightarrow> to_float n = Inr (exact n)"
  by (cases n) (simp_all add: converts_exactly_def float_limit_def)

lemma fmul_one: "fmul x (Fin 1) = x"
  by (cases x) simp_all

lemma fdiv_one: "fdiv x (Fin 1) = Inr x"
  by (cases x) simp_all

lemma py_add_exact: "py_add x y = Inr s \<Longrightarrow> exact s = fadd (exact x) (exact y)"
  by (cases x; cases y) (auto split: if_splits sum.splits)

lemma py_sub_exact: "py_sub x y = Inr d \<Longrightarrow> exact d = fsub (exact x) (exact y)"
  by (cases x; cases y) (auto simp add: fsub_def split: if_splits sum.splits)


section \<open>BankAccount: withdrawals\<close>

lemma withdraw_nonneg:
  assumes "fle (Fin 0) (balance self)" and "amount \<noteq> PyFloat NaN"
    and "\<not> (balance self = PInf \<and> amount = PyFloat PInf)"
  shows "fle (Fin 0) (balance (bank_exec (Withdraw amount) self))"
proof (cases "to_float amount")
  case (Inl e)
  with assms(1) show ?thesis by (simp add: withdraw_def)
next
  case (Inr a)
  then have ex: "exact amount = a" by (rule to_float_exact)
  from Inr assms(2) have "a \<noteq> NaN" by (cases amount) (auto split: if_splits)
  moreover from Inr assms(3) have "\<not> (balance self = PInf \<and> a = PInf)"
    by (cases amount) (auto split: if_splits)
  ultimately show ?thesis
    using assms(1) Inr ex
    by (cases "balance self"; cases a)
       (simp_all add: withdraw_def py_le_def py_gt_def py_lt_def fsub_def Let_def)
qed


text \<open>
  Claim C5, as amended. For every account whose balance is not negative before the call,
  the balance is not negative after \<open>withdraw\<close>, whether the call returns \<^verbatim>\<open>True\<close>,
  returns \<^verbatim>\<open>False\<close> or raises \<open>OverflowError\<close> (an int amount too large for a
  float, against an infinite balance), provided the amount is not NaN, and is not
  \<open>+inf\<close> when the balance is \<open>+inf\<close>.
\<close>

theorem withdraw_keeps_balance_nonneg:
  "fle (Fin 0) (balance self) \<Longrightarrow> amount \<noteq> PyFloat NaN \<Longrightarrow>
   \<not> (balance self = PInf \<and> amount = PyFloat PInf) \<Longrightarrow>
   fle (Fin 0) (balance (bank_exec (Withdraw amount) self))"
  by (rule withdraw_nonneg)

theorem withdraw_keeps_balance_nonneg_witness:
  "fle (Fin 0) (balance demo_account) \<and> PyInt 200 \<noteq> PyFloat NaN
   \<and> balance demo_account \<noteq> PInf
   \<and> withdraw (PyInt 200) demo_account
       = Inr ((True, Withdrew (PyInt 200) (Fin 800)), demo_account\<lparr>balance := Fin 800\<rparr>)
   \<and> fle (Fin 0) (balance (bank_exec (Withdraw (PyInt 200)) demo_account))"
  using withdraw_keeps_balance_nonneg [of demo_account "PyInt 200"]
  by (simp add: demo_account_def BankAccount_init_def withdraw_def py_le_def py_gt_def
      py_lt_def fsub_def float_limit_def Let_def)


text \<open>
  The claim as first stated fails for a NaN amount: both guards compare with NaN and are
  false, so \<open>withdraw\<close> subtracts, returns \<^verbatim>\<open>True\<close> and leaves the balance NaN, which
  is not greater than or equal to zero.
\<close>

theorem withdraw_nan_leaves_nan_balance:
  "fle (Fin 0) (balance demo_account)
   \<and> withdraw (PyFloat NaN) demo_account
       = Inr ((True, Withdrew (PyFloat NaN) NaN), demo_account\<lparr>balance := NaN\<rparr>)
   \<and> \<not> fle (Fin 0) (balance (bank_exec (Withdraw (PyFloat NaN)) demo_account))"
  by (simp add: demo_account_def BankAccount_init_def withdraw_def py_le_def py_gt_def
      py_lt_def fsub_def Let_def)


section \<open>BankAccount: a closed account\<close>

lemma closed_exec:
  "\<not> isActive self \<Longrightarrow> bank_exec c self = self"
  by (cases c) (simp_all add: deposit_def withdraw_def calculateInterest_def closeAccount_def)

lemma closed_run:
  "\<not> isActive self \<Longrightarrow> bank_run calls self = self"
  unfolding bank_run_def
  by (induction calls) (simp_all add: closed_exec)


text \<open>
  Claim C10. Closing an account cannot be undone and freezes it. After \<open>closeAccount\<close>
  and then any sequence of calls of deposit, withdraw, calculateInterest and closeAccount
  (the only methods that assign a field), with any amounts, \<open>isActive\<close> is still
  \<^verbatim>\<open>False\<close>, the balance is the balance the account had when it was closed, deposit
  and withdraw return \<^verbatim>\<open>False\<close>, and deposit, withdraw and calculateInterest leave
  the account as it is.
\<close>

theorem closed_account_is_frozen:
  "\<not> isActive (bank_run calls (snd (closeAccount self)))
   \<and> balance (bank_run calls (snd (closeAccount self))) = balance self
   \<and> deposit amount (bank_run calls (snd (closeAccount self)))
       = Inr ((False, ClosedNoTransactions), bank_run calls (snd (closeAccount self)))
   \<and> withdraw amount (bank_run calls (snd (closeAccount self)))
       = Inr ((False, ClosedNoTransactions), bank_run calls (snd (closeAccount self)))
   \<and> calculateInterest (bank_run calls (snd (closeAccount self)))
       = (ClosedNoInterest, bank_run calls (snd (closeAccount self)))"
proof -
  have c: "\<not> isActive (snd (closeAccount self))" "balance (snd (closeAccount self)) = balance self"
    by (simp_all add: closeAccount_def)
  from closed_run [OF c(1), of calls] c
  show ?thesis by (simp add: deposit_def withdraw_def calculateInterest_def)
qed


section \<open>CoffeeMaker: the medium cup\<close>

text \<open>
  Claim C7. A coffee maker that is on, holds 1.5 litres of water and at least 12 g of
  beans and has cup size \<open>medium\<close> (180 ml and 12 g in \<open>CUP_SIZES\<close>) brews with
  success; afterwards the water level is 1.32 litres, the beans are 12 g fewer and no
  other field has changed.
\<close>

theorem brew_medium_example:
  "isOn self \<Longrightarrow> waterLevel self = Fin 1.5 \<Longrightarrow> cupSize self = ''medium'' \<Longrightarrow>
   12 \<le> coffeeBeans self \<Longrightarrow>
   CUP_SIZES ''medium'' = Some \<lparr>water = 180, beans = 12\<rparr>
   \<and> success (fst (brew self))
   \<and> snd (brew self) = self\<lparr>waterLevel := Fin 1.32, coffeeBeans := coffeeBeans self - 12\<rparr>"
  by (simp add: brew_def CUP_SIZES_def fsub_def Let_def)

theorem brew_medium_example_witness:
  "isOn (snd (turnOn demo_coffee_maker))
   \<and> waterLevel (snd (turnOn demo_coffee_maker)) = Fin 1.5
   \<and> cupSize (snd (turnOn demo_coffee_maker)) = ''medium''
   \<and> 12 \<le> coffeeBeans (snd (turnOn demo_coffee_maker))
   \<and> success (fst (brew (snd (turnOn demo_coffee_maker))))
   \<and> waterLevel (snd (brew (snd (turnOn demo_coffee_maker)))) = Fin 1.32
   \<and> coffeeBeans (snd (brew (snd (turnOn demo_coffee_maker)))) = 138"
proof -
  have h: "isOn (snd (turnOn demo_coffee_maker))"
    "waterLevel (snd (turnOn demo_coffee_maker)) = Fin 1.5"
    "cupSize (snd (turnOn demo_coffee_maker)) = ''medium''"
    "12 \<le> coffeeBeans (snd (turnOn demo_coffee_maker))"
    by (simp_all add: demo_coffee_maker_def turnOn_def CoffeeMaker_init_def CUP_SIZES_def fmax_def)
  from brew_medium_example [OF h] h show ?thesis
    by (simp add: demo_coffee_maker_def turnOn_def CoffeeMaker_init_def CUP_SIZES_def fmax_def)
qed


section \<open>Smartphone: battery and PIN\<close>

lemma exact_eq_numeral: "exact n = Fin (numeral k) \<Longrightarrow> n = PyInt (numeral k) \<or> n = PyFloat (Fin (numeral k))"
  by (cases n) auto


text \<open>
  Claim C8. On a phone whose battery level is 85, \<open>useBattery(25)\<close> leaves 60 and
  \<open>charge(40)\<close> after it leaves exactly the int 100, the first argument of
  \<^verbatim>\<open>min(100, ...)\<close>; no other field changes. This holds whether the three numbers
  are given as ints or as floats.
\<close>

theorem battery_85_use_25_charge_40:
  "exact (batteryLevel self) = Fin 85 \<Longrightarrow> exact a = Fin 25 \<Longrightarrow> exact b = Fin 40 \<Longrightarrow>
   phone_exec (Charge (Num b)) (phone_exec (UseBattery (Num a)) self)
     = self\<lparr>batteryLevel := PyInt 100\<rparr>
   \<and> exact (batteryLevel (phone_exec (UseBattery (Num a)) self)) = Fin 60"
  by (auto dest!: exact_eq_numeral
      simp add: charge_def useBattery_def py_min_def py_max_def py_lt_def py_gt_def fsub_def
        float_limit_def Let_def)

theorem battery_85_use_25_charge_40_witness:
  "exact (batteryLevel demo_phone) = Fin 85
   \<and> exact (PyInt 25) = Fin 25 \<and> exact (PyInt 40) = Fin 40
   \<and> batteryLevel (phone_exec (Charge (Num (PyInt 40)))
        (phone_exec (UseBattery (Num (PyInt 25))) demo_phone)) = PyInt 100"
proof -
  have h: "exact (batteryLevel demo_phone) = Fin 85"
    by (simp add: demo_phone_def Smartphone_init_def py_min_def py_max_def py_lt_def py_gt_def)
  from battery_85_use_25_charge_40 [OF h, of "PyInt 25" "PyInt 40"] h show ?thesis
    by simp
qed

lemma correctPin_exec: "correctPin (phone_exec c self) = correctPin self"
  by (cases c) (simp_all add: unlock_def lock_def charge_def useBattery_def Let_def
      split: pyval.splits option.splits sum.splits)

lemma correctPin_run: "correctPin (phone_run calls self) = correctPin self"
  unfolding phone_run_def by (induction calls arbitrary: self) (simp_all add: correctPin_exec)


text \<open>
  Claim C9. In every state a phone reaches from its constructor by any sequence of
  method calls, \<open>unlock\<close> without a PIN returns \<^verbatim>\<open>True\<close> and sets \<open>isLocked\<close> to
  \<^verbatim>\<open>False\<close>: the omitted PIN becomes the string 1234, which is the stored PIN, and no
  method changes the stored PIN.
\<close>

theorem unlock_without_pin:
  "unlock None (phone_run calls (Smartphone_init b m sc bl))
     = (True, (phone_run calls (Smartphone_init b m sc bl))\<lparr>isLocked := False\<rparr>)"
  by (simp add: unlock_def correctPin_run) (simp add: Smartphone_init_def)


section \<open>Mode flags\<close>

lemma str_Book_status:
  "suffix (if isCheckedOut b then ''Checked Out'' else ''Available'') (str_Book b)"
  unfolding suffix_def
  by (rule exI [of _ "title b @ '' by '' @ author b @ '' ('' @ isbn b @ '') - ''
        @ show_int (pageCount b) @ '' pages - ''"])
     (simp add: str_Book_def isAvailable_def)

lemma str_Smartphone_status:
  "suffix (if isLocked p then '') - Locked'' else '') - Unlocked'') (str_Smartphone float_str p)"
  unfolding suffix_def
  by (rule exI [of _ "Smartphone.brand p @ '' '' @ Smartphone.model p @ '' (''
        @ show_int (storageCapacity p) @ ''GB) - Battery: ''
        @ py_str float_str (batteryLevel p) @ ''% ('' @ getBatteryStatus p"])
     (simp add: str_Smartphone_def)

lemma str_CoffeeMaker_status:
  "prefix (CoffeeMaker.brand cm @ '' Coffee Maker - '' @ (if isOn cm then ''ON'' else ''OFF'') @ '' - Water: '')
     (str_CoffeeMaker fmt2f cm)"
  by (simp add: str_CoffeeMaker_def Let_def)

lemma book_toggle_twice:
  "snd (checkOut (snd (checkOut b))) = snd (checkOut b)"
  "snd (returnBook (snd (returnBook b))) = snd (returnBook b)"
  by (simp_all add: checkOut_def returnBook_def)

lemma phone_toggle_twice:
  "snd (lock (snd (lock p))) = snd (lock p)"
  "snd (unlock pin (snd (unlock pin p))) = snd (unlock pin p)"
  by (simp_all add: lock_def unlock_def Let_def)

lemma cm_toggle_twice:
  "snd (turnOn (snd (turnOn cm))) = snd (turnOn cm)"
  "snd (turnOff (snd (turnOff cm))) = snd (turnOff cm)"
  by (simp_all add: turnOn_def turnOff_def)

lemma toggle_flags:
  "isCheckedOut (snd (checkOut b))" "\<not> isCheckedOut (snd (returnBook b))"
  "isLocked (snd (lock p))"
  "isOn (snd (turnOn cm))" "\<not> isOn (snd (turnOff cm))"
  "CoffeeMaker.brand (snd (turnOn cm)) = CoffeeMaker.brand cm"
  "CoffeeMaker.brand (snd (turnOff cm)) = CoffeeMaker.brand cm"
  by (simp_all add: checkOut_def returnBook_def lock_def turnOn_def turnOff_def)


text \<open>
  Claim C6. Each mode-flag operation (\<open>checkOut\<close>, \<open>returnBook\<close>, \<open>lock\<close>,
  \<open>unlock\<close> with a fixed PIN, \<open>turnOn\<close>, \<open>turnOff\<close>) called twice in a row leaves the
  object in the state it has after the first call, and \<^verbatim>\<open>__str__\<close> of that state shows
  the resulting flag: a book ends in \<open>Checked Out\<close> or \<open>Available\<close>, a phone in
  \<open>Locked\<close> or \<open>Unlocked\<close>, and a coffee maker's text has \<open>ON\<close> or \<open>OFF\<close> right
  after the brand. (\<open>getSummary\<close> of a book lists title, author and ISBN only; the text
  that shows the flag is \<^verbatim>\<open>__str__\<close>.)
\<close>

theorem toggles_idempotent:
  "snd (checkOut (snd (checkOut b))) = snd (checkOut b)
   \<and> snd (returnBook (snd (returnBook b))) = snd (returnBook b)
   \<and> snd (lock (snd (lock p))) = snd (lock p)
   \<and> snd (unlock pin (snd (unlock pin p))) = snd (unlock pin p)
   \<and> snd (turnOn (snd (turnOn cm))) = snd (turnOn cm)
   \<and> snd (turnOff (snd (turnOff cm))) = snd (turnOff cm)
   \<and> isCheckedOut (snd (checkOut b))
   \<and> suffix ''Checked Out'' (str_Book (snd (checkOut b)))
   \<and> \<not> isCheckedOut (snd (returnBook b))
   \<and> suffix ''Available'' (str_Book (snd (returnBook b)))
   \<and> isLocked (snd (lock p))
   \<and> suffix '') - Locked'' (str_Smartphone float_str (snd (lock p)))
   \<and> suffix (if isLocked (snd (unlock pin p)) then '') - Locked'' else '') - Unlocked'')
        (str_Smartphone float_str (snd (unlock pin p)))
   \<and> isOn (snd (turnOn cm))
   \<and> prefix (CoffeeMaker.brand cm @ '' Coffee Maker - ON - Water: '')
        (str_CoffeeMaker fmt2f (snd (turnOn cm)))
   \<and> \<not> isOn (snd (turnOff cm))
   \<and> prefix (CoffeeMaker.brand cm @ '' Coffee Maker - OFF - Water: '')
        (str_CoffeeMaker fmt2f (snd (turnOff cm)))"
  using str_Book_status [of "snd (checkOut b)"] str_Book_status [of "snd (returnBook b)"]
    str_Smartphone_status [of "snd (lock p)" float_str]
    str_Smartphone_status [of "snd (unlock pin p)" float_str]
    str_CoffeeMaker_status [of "snd (turnOn cm)" fmt2f]
    str_CoffeeMaker_status [of "snd (turnOff cm)" fmt2f]
  by (simp add: book_toggle_twice phone_toggle_twice cm_toggle_twice toggle_flags)


section \<open>Withdrawals and usage\<close>

lemma withdraw_insufficient:
  "py_gt amount (PyFloat (balance acct)) \<Longrightarrow>
   \<exists>msg. withdraw amount acct = Inr ((False, msg), acct)"
  by (simp add: withdraw_def)

lemma brew_nonneg:
  "fle (Fin 0) (waterLevel cm) \<and> 0 \<le> coffeeBeans cm \<Longrightarrow>
   fle (Fin 0) (waterLevel (snd (brew cm))) \<and> 0 \<le> coffeeBeans (snd (brew cm))"
  by (cases "waterLevel cm") (auto simp add: brew_def fsub_def Let_def split: option.splits)

lemma brew_insufficient:
  "CUP_SIZES (cupSize cm) = Some spec \<and>
   (flt (waterLevel cm) (Fin (of_int (water spec) / 1000)) \<or> coffeeBeans cm < beans spec) \<Longrightarrow>
   \<not> success (fst (brew cm)) \<and> snd (brew cm) = cm"
  by (auto simp add: brew_def Let_def)

lemma drive_nonneg:
  assumes "fle (Fin 0) (fuel_level car)" and "distance \<noteq> PyFloat NaN"
    and "\<not> (fuel_level car = PInf \<and> distance = PyFloat PInf)"
  shows "fle (Fin 0) (fuel_level (car_exec (Drive distance) car))"
proof (cases "to_float distance")
  case (Inl e)
  with assms(1) show ?thesis by (simp add: car_exec_def drive_def)
next
  case (Inr d)
  then have ex: "exact distance = d" by (rule to_float_exact)
  from Inr assms(2) have "d \<noteq> NaN" by (cases distance) (auto split: if_splits)
  moreover from Inr assms(3) have "\<not> (fuel_level car = PInf \<and> d = PInf)"
    by (cases distance) (auto split: if_splits)
  ultimately show ?thesis
    using assms(1) Inr ex
    by (cases "fuel_level car"; cases d)
       (simp_all add: car_exec_def drive_def py_le_def fsub_def fmul_one fdiv_one Let_def)
qed

lemma drive_out_of_fuel:
  assumes "is_engine_on car" and "converts_exactly distance"
    and "flt (Fin 0) (exact distance)" and "flt (fuel_level car) (exact distance)"
  shows "drive distance car
     = Inr (RanOutOfFuel (fuel_level car) (Fin 0),
            car\<lparr>fuel_level := Fin 0, is_engine_on := False\<rparr>)"
proof -
  from assms(2) have c: "to_float distance = Inr (exact distance)"
    by (rule to_float_converts_exactly)
  from assms(3) have "\<not> py_le distance (PyInt 0)"
    by (cases "exact distance") (simp_all add: py_le_def)
  with assms c show ?thesis
    by (simp add: drive_def fmul_one fdiv_one Let_def)
qed

lemma drive_overflow:
  "is_engine_on car \<Longrightarrow> \<not> py_le distance (PyInt 0) \<Longrightarrow> to_float distance = Inl e \<Longrightarrow>
   drive distance car = Inl e"
  by (simp add: drive_def)

lemma py_max_zero_nonneg: "py_le (PyInt 0) (py_max (PyInt 0) x)"
  by (cases "exact x") (auto simp add: py_max_def py_gt_def py_lt_def py_le_def)

lemma useBattery_nonneg:
  "py_le (PyInt 0) (batteryLevel p) \<Longrightarrow>
   py_le (PyInt 0) (batteryLevel (phone_exec (UseBattery v) p))"
  by (cases v) (simp_all add: useBattery_def Let_def py_max_zero_nonneg split: sum.splits)

lemma useBattery_drains:
  assumes "py_le (PyInt 0) a" and "py_lt (batteryLevel p) a"
    and "py_sub (batteryLevel p) a = Inr d"
  shows "useBattery (Num a) p = Inr (PyInt 0, p\<lparr>batteryLevel := PyInt 0\<rparr>)"
proof -
  from assms(1) have a: "\<not> py_lt a (PyInt 0)"
    by (cases "exact a") (simp_all add: py_le_def py_lt_def)
  have "exact d = fsub (exact (batteryLevel p)) (exact a)"
    using assms(3) by (rule py_sub_exact)
  with assms(2) have "\<not> py_gt d (PyInt 0)"
    by (cases "exact (batteryLevel p)"; cases "exact a")
       (simp_all add: py_gt_def py_lt_def fsub_def)
  with a assms(3) show ?thesis
    by (simp add: useBattery_def py_max_def Let_def)
qed

lemma useBattery_overflow:
  "\<not> py_lt a (PyInt 0) \<Longrightarrow> py_sub (batteryLevel p) a = Inl e \<Longrightarrow>
   useBattery (Num a) p = Inl e"
  by (simp add: useBattery_def)


text \<open>
  Claim C1, as amended. \<open>brew\<close> and \<open>useBattery\<close> never make their quantity negative
  when it was not negative before; \<open>withdraw\<close> and \<open>drive\<close> never do for an argument
  that is not NaN (and not \<open>+inf\<close> against a quantity of \<open>+inf\<close>). \<open>withdraw\<close> of
  more than the balance and \<open>brew\<close> with too little water or too few beans are rejected
  and leave every field unchanged. \<open>drive\<close> and \<open>useBattery\<close> do not reject a request
  larger than what is left: with the engine on, a positive distance above the fuel level
  (a float, or an int that converts to a float without rounding) sets the fuel to 0 and
  stops the engine (the car drives as far as the fuel lasts), and a usage above the
  battery level sets the battery to 0. Where the arithmetic raises
  \<open>OverflowError\<close> instead (an int too large for a float in \<^verbatim>\<open>distance * 1.0\<close> or in
  the difference with a float battery level), the call raises and no field changes.
\<close>

theorem usage_never_negative:
  "(fle (Fin 0) (balance acct) \<and> amount \<noteq> PyFloat NaN
      \<and> \<not> (balance acct = PInf \<and> amount = PyFloat PInf) \<longrightarrow>
        fle (Fin 0) (balance (bank_exec (Withdraw amount) acct)))
   \<and> (py_gt amount (PyFloat (balance acct)) \<longrightarrow>
        (\<exists>msg. withdraw amount acct = Inr ((False, msg), acct)))
   \<and> (fle (Fin 0) (waterLevel cm) \<and> 0 \<le> coffeeBeans cm \<longrightarrow>
        fle (Fin 0) (waterLevel (snd (brew cm))) \<and> 0 \<le> coffeeBeans (snd (brew cm)))
   \<and> (CUP_SIZES (cupSize cm) = Some spec \<and>
        (flt (waterLevel cm) (Fin (of_int (water spec) / 1000)) \<or> coffeeBeans cm < beans spec) \<longrightarrow>
        \<not> success (fst (brew cm)) \<and> snd (brew cm) = cm)
   \<and> (fle (Fin 0) (fuel_level car) \<and> distance \<noteq> PyFloat NaN
      \<and> \<not> (fuel_level car = PInf \<and> distance = PyFloat PInf) \<longrightarrow>
        fle (Fin 0) (fuel_level (car_exec (Drive distance) car)))
   \<and> (is_engine_on car \<and> converts_exactly distance \<and> flt (Fin 0) (exact distance)
      \<and> flt (fuel_level car) (exact distance) \<longrightarrow>
        drive distance car
          = Inr (RanOutOfFuel (fuel_level car) (Fin 0),
                 car\<lparr>fuel_level := Fin 0, is_engine_on := False\<rparr>))
   \<and> (is_engine_on car \<and> \<not> py_le distance (PyInt 0) \<and> to_float distance = Inl e \<longrightarrow>
        drive distance car = Inl e)
   \<and> (py_le (PyInt 0) (batteryLevel p) \<longrightarrow>
        py_le (PyInt 0) (batteryLevel (phone_exec (UseBattery v) p)))
   \<and> (py_le (PyInt 0) a \<and> py_lt (batteryLevel p) a \<and> py_sub (batteryLevel p) a = Inr r \<longrightarrow>
        useBattery (Num a) p = Inr (PyInt 0, p\<lparr>batteryLevel := PyInt 0\<rparr>))
   \<and> (\<not> py_lt a (PyInt 0) \<and> py_sub (batteryLevel p) a = Inl e' \<longrightarrow>
        useBattery (Num a) p = Inl e')"
proof (intro conjI impI, goal_cases)
  case 1
  then show ?case using withdraw_nonneg [of acct amount] by blast
next
  case 2
  then show ?case by (rule withdraw_insufficient)
next
  case 3
  then show ?case using brew_nonneg [of cm] by blast
next
  case 4
  then show ?case using brew_nonneg [of cm] by blast
next
  case 5
  then show ?case using brew_insufficient [of cm spec] by blast
next
  case 6
  then show ?case using brew_insufficient [of cm spec] by blast
next
  case 7
  then show ?case using drive_nonneg [of car distance] by blast
next
  case 8
  then show ?case using drive_out_of_fuel [of car distance] by blast
next
  case 9
  then show ?case using drive_overflow [of car distance e] by blast
next
  case 10
  then show ?case by (rule useBattery_nonneg)
next
  case 11
  then show ?case using useBattery_drains [of a p r] by blast
next
  case 12
  then show ?case using useBattery_overflow [of a p e'] by blast
qed

theorem usage_never_negative_witness:
  "fle (Fin 0) (balance demo_account)
   \<and> py_gt (PyInt 1500) (PyFloat (balance demo_account))
   \<and> withdraw (PyInt 1500) demo_account = Inr ((False, InsufficientFunds), demo_account)
   \<and> fle (Fin 0) (balance (bank_exec (Withdraw (PyInt 1500)) demo_account))
   \<and> fle (Fin 0) (waterLevel (snd (turnOn (CoffeeMaker_init ''Keurig'' (Fin 0.1) 150 ''medium''))))
   \<and> 0 \<le> coffeeBeans (snd (turnOn (CoffeeMaker_init ''Keurig'' (Fin 0.1) 150 ''medium'')))
   \<and> CUP_SIZES (cupSize (snd (turnOn (CoffeeMaker_init ''Keurig'' (Fin 0.1) 150 ''medium''))))
        = Some \<lparr>water = 180, beans = 12\<rparr>
   \<and> flt (waterLevel (snd (turnOn (CoffeeMaker_init ''Keurig'' (Fin 0.1) 150 ''medium''))))
        (Fin (of_int (water \<lparr>water = 180, beans = 12\<rparr>) / 1000))
   \<and> \<not> success (fst (brew (snd (turnOn (CoffeeMaker_init ''Keurig'' (Fin 0.1) 150 ''medium'')))))
   \<and> snd (brew (snd (turnOn (CoffeeMaker_init ''Keurig'' (Fin 0.1) 150 ''medium''))))
        = snd (turnOn (CoffeeMaker_init ''Keurig'' (Fin 0.1) 150 ''medium''))
   \<and> fle (Fin 0) (fuel_level (snd (start_engine demo_car)))
   \<and> is_engine_on (snd (start_engine demo_car))
   \<and> converts_exactly (PyInt 120) \<and> flt (Fin 0) (exact (PyInt 120))
   \<and> flt (fuel_level (snd (start_engine demo_car))) (exact (PyInt 120))
   \<and> drive (PyInt 120) (snd (start_engine demo_car))
        = Inr (RanOutOfFuel (fuel_level (snd (start_engine demo_car))) (Fin 0),
               (snd (start_engine demo_car))\<lparr>fuel_level := Fin 0, is_engine_on := False\<rparr>)
   \<and> fle (Fin 0) (fuel_level (car_exec (Drive (PyInt 120)) (snd (start_engine demo_car))))
   \<and> \<not> py_le (PyInt (10 ^ 400)) (PyInt 0)
   \<and> to_float (PyInt (10 ^ 400)) = Inl (OverflowError ''int too large to convert to float'')
   \<and> drive (PyInt (10 ^ 400)) (snd (start_engine demo_car))
        = Inl (OverflowError ''int too large to convert to float'')
   \<and> py_le (PyInt 0) (batteryLevel demo_phone)
   \<and> py_le (PyInt 0) (PyInt 90) \<and> py_lt (batteryLevel demo_phone) (PyInt 90)
   \<and> py_sub (batteryLevel demo_phone) (PyInt 90) = Inr (PyInt (- 5))
   \<and> useBattery (Num (PyInt 90)) demo_phone = Inr (PyInt 0, demo_phone\<lparr>batteryLevel := PyInt 0\<rparr>)
   \<and> py_le (PyInt 0) (batteryLevel (phone_exec (UseBattery (Num (PyInt 90))) demo_phone))
   \<and> \<not> py_lt (PyInt (10 ^ 400)) (PyInt 0)
   \<and> py_sub (batteryLevel (demo_phone\<lparr>batteryLevel := PyFloat (Fin 85.5)\<rparr>)) (PyInt (10 ^ 400))
        = Inl (OverflowError ''int too large to convert to float'')
   \<and> useBattery (Num (PyInt (10 ^ 400))) (demo_phone\<lparr>batteryLevel := PyFloat (Fin 85.5)\<rparr>)
        = Inl (OverflowError ''int too large to convert to float'')"
proof -
  let ?cm = "snd (turnOn (CoffeeMaker_init ''Keurig'' (Fin 0.1) 150 ''medium''))"
  let ?car = "snd (start_engine demo_car)"
  let ?p' = "demo_phone\<lparr>batteryLevel := PyFloat (Fin 85.5)\<rparr>"
  let ?err = "OverflowError ''int too large to convert to float''"
  note T = usage_never_negative [where acct = demo_account and amount = "PyInt 1500"
      and cm = ?cm and spec = "\<lparr>water = 180, beans = 12\<rparr>"
      and car = ?car and distance = "PyInt 120"
      and p = demo_phone and v = "Num (PyInt 90)" and a = "PyInt 90" and r = "PyInt (- 5)"]
  note U = usage_never_negative [where car = ?car and distance = "PyInt (10 ^ 400)"
      and e = ?err and p = ?p' and a = "PyInt (10 ^ 400)" and e' = ?err]
  have acct: "fle (Fin 0) (balance demo_account)" "PyInt 1500 \<noteq> PyFloat NaN"
    "\<not> (balance demo_account = PInf \<and> PyInt 1500 = PyFloat PInf)"
    "py_gt (PyInt 1500) (PyFloat (balance demo_account))"
    "withdraw (PyInt 1500) demo_account = Inr ((False, InsufficientFunds), demo_account)"
    by (simp_all add: demo_account_def BankAccount_init_def withdraw_def py_gt_def py_lt_def
        py_le_def)
  have cm: "fle (Fin 0) (waterLevel ?cm)" "0 \<le> coffeeBeans ?cm"
    "CUP_SIZES (cupSize ?cm) = Some \<lparr>water = 180, beans = 12\<rparr>"
    "flt (waterLevel ?cm) (Fin (of_int (water \<lparr>water = 180, beans = 12\<rparr>) / 1000))"
    by (simp_all add: turnOn_def CoffeeMaker_init_def CUP_SIZES_def fmax_def)
  have car: "fle (Fin 0) (fuel_level ?car)" "PyInt 120 \<noteq> PyFloat NaN"
    "\<not> (fuel_level ?car = PInf \<and> PyInt 120 = PyFloat PInf)" "is_engine_on ?car"
    "converts_exactly (PyInt 120)" "flt (Fin 0) (exact (PyInt 120))"
    "flt (fuel_level ?car) (exact (PyInt 120))"
    by (simp_all add: demo_car_def Car_init_def start_engine_def converts_exactly_def)
  have big: "\<not> py_le (PyInt (10 ^ 400)) (PyInt 0)" "to_float (PyInt (10 ^ 400)) = Inl ?err"
    "\<not> py_lt (PyInt (10 ^ 400)) (PyInt 0)"
    by (simp_all add: py_le_def py_lt_def float_limit_def)
  have phone: "py_le (PyInt 0) (batteryLevel demo_phone)" "py_le (PyInt 0) (PyInt 90)"
    "py_lt (batteryLevel demo_phone) (PyInt 90)"
    "py_sub (batteryLevel demo_phone) (PyInt 90) = Inr (PyInt (- 5))"
    by (simp_all add: demo_phone_def Smartphone_init_def py_min_def py_max_def py_lt_def
        py_gt_def py_le_def)
  have sub': "py_sub (batteryLevel ?p') (PyInt (10 ^ 400)) = Inl ?err"
    using big(2) by simp
  from T acct(1-3) have r1: "fle (Fin 0) (balance (bank_exec (Withdraw (PyInt 1500)) demo_account))"
    by blast
  from T cm have r2: "\<not> success (fst (brew ?cm))" "snd (brew ?cm) = ?cm"
    by blast+
  from T car have r3: "drive (PyInt 120) ?car
      = Inr (RanOutOfFuel (fuel_level ?car) (Fin 0), ?car\<lparr>fuel_level := Fin 0, is_engine_on := False\<rparr>)"
    "fle (Fin 0) (fuel_level (car_exec (Drive (PyInt 120)) ?car))"
    by blast+
  from U car(4) big have r4: "drive (PyInt (10 ^ 400)) ?car = Inl ?err"
    by blast
  from T phone have r5: "useBattery (Num (PyInt 90)) demo_phone
      = Inr (PyInt 0, demo_phone\<lparr>batteryLevel := PyInt 0\<rparr>)"
    "py_le (PyInt 0) (batteryLevel (phone_exec (UseBattery (Num (PyInt 90))) demo_phone))"
    by blast+
  from U big(3) sub' have r6: "useBattery (Num (PyInt (10 ^ 400))) ?p' = Inl ?err"
    by blast
  show ?thesis
    by (intro conjI acct(1) acct(4) acct(5) r1 cm r2 car(1) car(4-7) r3 r4 big phone r5 sub' r6)
qed


text \<open>
  The claim as first stated fails for \<open>drive\<close>: with 10 units of fuel and the engine
  on, a drive of 20 is not rejected; it empties the tank and stops the engine.
\<close>

theorem drive_beyond_fuel_changes_state:
  "flt (fuel_level (Car_init ''Toyota'' ''Camry'' 2023 ''Blue'' (Fin 10) True)) (Fin 20)
   \<and> drive (PyInt 20) (Car_init ''Toyota'' ''Camry'' 2023 ''Blue'' (Fin 10) True)
       = Inr (RanOutOfFuel (Fin 10) (Fin 0), Car_init ''Toyota'' ''Camry'' 2023 ''Blue'' (Fin 0) False)
   \<and> car_exec (Drive (PyInt 20)) (Car_init ''Toyota'' ''Camry'' 2023 ''Blue'' (Fin 10) True)
       \<noteq> Car_init ''Toyota'' ''Camry'' 2023 ''Blue'' (Fin 10) True"
  by (simp add: car_exec_def drive_def Car_init_def py_le_def float_limit_def Let_def)


section \<open>Failure reports and state\<close>

lemma bank_failed_unchanged: "bank_failed bc acct \<Longrightarrow> bank_exec bc acct = acct"
  by (cases bc) (auto simp add: deposit_def withdraw_def calculateInterest_def Let_def
      split: if_splits sum.splits)

lemma book_failed_unchanged: "book_failed kc b \<Longrightarrow> book_exec kc b = b"
  by (cases kc) (auto simp add: checkOut_def returnBook_def setPageCount_def
      split: if_splits pyval.splits pynum.splits sum.splits)

lemma car_failed_unchanged: "car_failed cc car \<Longrightarrow> car_exec cc car = car"
  by (cases cc) (auto simp add: car_failed_def car_exec_def start_engine_def stop_engine_def
      drive_def refuel_def Let_def split: if_splits sum.splits)

lemma phone_failed_unchanged: "phone_failed pc p \<Longrightarrow> phone_exec pc p = p"
  by (cases pc) (auto simp add: unlock_def lock_def charge_def useBattery_def Let_def
      split: if_splits pyval.splits sum.splits)

lemma cm_failed_unchanged:
  assumes "cm_failed mc cm"
  shows "cm_exec mc cm = cm
   \<or> (\<exists>x y. mc = RefillWater (Num x) \<and> to_float x = Inr y
         \<and> flt (maxWaterCapacity cm) (fadd (waterLevel cm) y)
         \<and> cm_exec mc cm = cm\<lparr>waterLevel := maxWaterCapacity cm\<rparr>)
   \<or> (\<exists>x n. mc = AddBeans (Num x) \<and> py_int x = Inr n
         \<and> maxBeansCapacity cm < coffeeBeans cm + n
         \<and> cm_exec mc cm = cm\<lparr>coffeeBeans := maxBeansCapacity cm\<rparr>)"
  using assms
proof (cases mc)
  case (RefillWater amount)
  with assms show ?thesis
    by (cases amount) (auto simp add: refillWater_def Let_def split: if_splits sum.splits)
next
  case (AddBeans amount)
  with assms show ?thesis
    by (cases amount) (auto simp add: addBeans_def Let_def split: if_splits sum.splits)
qed (auto simp add: turnOn_def turnOff_def brew_def setCupSize_def Let_def
      split: if_splits option.splits)


text \<open>
  Claim C2, as amended. A call that reports failure (\<^verbatim>\<open>False\<close>, \<^verbatim>\<open>success: False\<close>,
  a raised exception, the refusal printed by \<open>calculateInterest\<close>, or one of the car's
  \<open>Cannot ...\<close> and \<open>Invalid ...\<close> strings) leaves every field unchanged, with two
  exceptions: \<open>refillWater\<close> and \<open>addBeans\<close> with an amount that would exceed the
  capacity set the quantity to the capacity and report \<^verbatim>\<open>success: False\<close>.
\<close>

theorem failure_leaves_state:
  "(bank_failed bc acct \<longrightarrow> bank_exec bc acct = acct)
   \<and> (book_failed kc b \<longrightarrow> book_exec kc b = b)
   \<and> (car_failed cc car \<longrightarrow> car_exec cc car = car)
   \<and> (phone_failed pc p \<longrightarrow> phone_exec pc p = p)
   \<and> (cm_failed mc cm \<longrightarrow>
        cm_exec mc cm = cm
        \<or> (\<exists>x y. mc = RefillWater (Num x) \<and> to_float x = Inr y
              \<and> flt (maxWaterCapacity cm) (fadd (waterLevel cm) y)
              \<and> cm_exec mc cm = cm\<lparr>waterLevel := maxWaterCapacity cm\<rparr>)
        \<or> (\<exists>x n. mc = AddBeans (Num x) \<and> py_int x = Inr n
              \<and> maxBeansCapacity cm < coffeeBeans cm + n
              \<and> cm_exec mc cm = cm\<lparr>coffeeBeans := maxBeansCapacity cm\<rparr>))"
  by (intro conjI impI bank_failed_unchanged book_failed_unchanged car_failed_unchanged
      phone_failed_unchanged cm_failed_unchanged)

theorem failure_leaves_state_witness:
  "bank_failed (Deposit (PyInt (- 5))) demo_account
   \<and> bank_exec (Deposit (PyInt (- 5))) demo_account = demo_account
   \<and> book_failed ReturnBook demo_book \<and> book_exec ReturnBook demo_book = demo_book
   \<and> car_failed (Drive (PyInt 25)) demo_car \<and> car_exec (Drive (PyInt 25)) demo_car = demo_car
   \<and> phone_failed (Unlock (Some ''0000'')) demo_phone
   \<and> phone_exec (Unlock (Some ''0000'')) demo_phone = demo_phone
   \<and> cm_failed Brew demo_coffee_maker \<and> cm_exec Brew demo_coffee_maker = demo_coffee_maker"
proof -
  note T = failure_leaves_state [where bc = "Deposit (PyInt (- 5))" and acct = demo_account
      and kc = ReturnBook and b = demo_book and cc = "Drive (PyInt 25)" and car = demo_car
      and pc = "Unlock (Some ''0000'')" and p = demo_phone and mc = Brew and cm = demo_coffee_maker]
  have f: "bank_failed (Deposit (PyInt (- 5))) demo_account" "book_failed ReturnBook demo_book"
    "car_failed (Drive (PyInt 25)) demo_car" "phone_failed (Unlock (Some ''0000'')) demo_phone"
    "cm_failed Brew demo_coffee_maker"
    by (simp_all add: demo_account_def demo_book_def demo_car_def demo_phone_def
        demo_coffee_maker_def BankAccount_init_def Book_init_def Car_init_def Smartphone_init_def
        CoffeeMaker_init_def deposit_def returnBook_def car_failed_def drive_def unlock_def
        brew_def py_le_def)
  from T f have "bank_exec (Deposit (PyInt (- 5))) demo_account = demo_account"
    "book_exec ReturnBook demo_book = demo_book"
    "car_exec (Drive (PyInt 25)) demo_car = demo_car"
    "phone_exec (Unlock (Some ''0000'')) demo_phone = demo_phone"
    "cm_exec Brew demo_coffee_maker = demo_coffee_maker"
    by simp_all
  with f show ?thesis by simp
qed


text \<open>
  The claim as first stated fails for \<open>refillWater\<close>: adding 1 litre to 1.5 litres
  reports failure and raises the water level to the capacity of 2 litres.
\<close>

theorem refillWater_overflow_fails_and_fills:
  "cm_failed (RefillWater (Num (PyFloat (Fin 1)))) demo_coffee_maker
   \<and> refillWater (Num (PyFloat (Fin 1))) demo_coffee_maker
       = Inr (\<lparr>success = False, message = WaterTankFull (Fin 0.5) (Fin 0.5)\<rparr>,
              demo_coffee_maker\<lparr>waterLevel := Fin 2\<rparr>)
   \<and> waterLevel demo_coffee_maker = Fin 1.5
   \<and> cm_exec (RefillWater (Num (PyFloat (Fin 1)))) demo_coffee_maker \<noteq> demo_coffee_maker"
  by (simp add: demo_coffee_maker_def refillWater_def CoffeeMaker_init_def py_le_def fsub_def
      fmax_def Let_def)


section \<open>Deposits, charges and refills\<close>

lemma py_int_nonneg: "\<not> py_le a (PyInt 0) \<Longrightarrow> py_int a = Inr n \<Longrightarrow> 0 \<le> n"
  by (cases a; cases "exact a") (auto simp add: py_le_def split: if_splits)

lemma deposit_monotone:
  assumes "balance acct \<noteq> NaN" and "balance acct \<noteq> NInf" and "amount \<noteq> PyFloat NaN"
  shows "fle (balance acct) (balance (bank_exec (Deposit amount) acct))"
proof (cases "to_float amount")
  case (Inl e)
  with assms(1) show ?thesis by (cases "balance acct") (simp_all add: deposit_def)
next
  case (Inr a)
  then have ex: "exact amount = a" by (rule to_float_exact)
  from Inr assms(3) have "a \<noteq> NaN" by (cases amount) (auto split: if_splits)
  then show ?thesis
    using assms(1,2) Inr ex
    by (cases "balance acct"; cases a) (simp_all add: deposit_def py_le_def Let_def)
qed

lemma charge_monotone:
  assumes "py_le (batteryLevel p) (PyInt 100)"
  shows "py_le (batteryLevel p) (batteryLevel (phone_exec (Charge v) p))
         \<and> py_le (batteryLevel (phone_exec (Charge v) p)) (PyInt 100)"
proof (cases v)
  case NotNum
  with assms show ?thesis
    by (cases "exact (batteryLevel p)") (simp_all add: charge_def py_le_def)
next
  case (Num a)
  show ?thesis
  proof (cases "py_lt a (PyInt 0) \<or> isl (py_add (batteryLevel p) a)")
    case True
    with assms Num show ?thesis
      by (cases "exact (batteryLevel p)")
         (auto simp add: charge_def py_le_def isl_def split: sum.splits)
  next
    case False
    then obtain s where s: "py_add (batteryLevel p) a = Inr s" and a: "\<not> py_lt a (PyInt 0)"
      by (cases "py_add (batteryLevel p) a") auto
    have "exact s = fadd (exact (batteryLevel p)) (exact a)" using s by (rule py_add_exact)
    with assms a have "py_le (batteryLevel p) (py_min (PyInt 100) s)
        \<and> py_le (py_min (PyInt 100) s) (PyInt 100)"
      by (cases "exact (batteryLevel p)"; cases "exact a")
         (auto simp add: py_min_def py_lt_def py_le_def)
    with Num s a show ?thesis by (simp add: charge_def Let_def)
  qed
qed

lemma refuel_monotone:
  assumes "fle (fuel_level car) (Fin 100)"
  shows "fle (fuel_level car) (fuel_level (car_exec (Refuel x) car))
         \<and> fle (fuel_level (car_exec (Refuel x) car)) (Fin 100)"
proof (cases "to_float x")
  case (Inl e)
  with assms show ?thesis by (cases "fuel_level car") (simp_all add: car_exec_def refuel_def)
next
  case (Inr a)
  then have ex: "exact x = a" by (rule to_float_exact)
  show ?thesis
    using assms Inr ex
    by (cases "fuel_level car"; cases a)
       (simp_all add: car_exec_def refuel_def py_le_def fmin_def Let_def)
qed

lemma refillWater_monotone:
  assumes "fle (waterLevel cm) (maxWaterCapacity cm)" and "waterLevel cm \<noteq> NInf"
    and "w \<noteq> Num (PyFloat NaN)"
  shows "fle (waterLevel cm) (waterLevel (cm_exec (RefillWater w) cm))
         \<and> fle (waterLevel (cm_exec (RefillWater w) cm)) (maxWaterCapacity cm)"
proof (cases w)
  case NotNum
  with assms show ?thesis
    by (cases "waterLevel cm") (simp_all add: refillWater_def)
next
  case (Num n)
  show ?thesis
  proof (cases "to_float n")
    case (Inl e)
    with assms Num show ?thesis
      by (cases "waterLevel cm") (simp_all add: refillWater_def)
  next
    case (Inr a)
    then have ex: "exact n = a" by (rule to_float_exact)
    from Inr assms(3) Num have "a \<noteq> NaN" by (cases n) (auto split: if_splits)
    then show ?thesis
      using assms(1,2) Num Inr ex
      by (cases "waterLevel cm"; cases "maxWaterCapacity cm"; cases a)
         (simp_all add: refillWater_def py_le_def Let_def)
  qed
qed

lemma addBeans_monotone:
  assumes "coffeeBeans cm \<le> maxBeansCapacity cm"
  shows "coffeeBeans cm \<le> coffeeBeans (cm_exec (AddBeans g) cm)
         \<and> coffeeBeans (cm_exec (AddBeans g) cm) \<le> maxBeansCapacity cm"
proof (cases g)
  case NotNum
  with assms show ?thesis by (simp add: addBeans_def)
next
  case (Num n)
  with assms py_int_nonneg [of n] show ?thesis
    by (auto simp add: addBeans_def Let_def split: sum.splits)
qed


text \<open>
  A deposit of an amount that is not NaN never lowers a balance that is a number above
  \<open>-inf\<close>. \<open>charge\<close>, \<open>refuel\<close>, \<open>refillWater\<close> and \<open>addBeans\<close> never lower
  their quantity and never leave it above its maximum, provided the quantity is not above
  the maximum before the call (and, for \<open>refillWater\<close>, the amount is not NaN and the
  water level is not \<open>-inf\<close>).
\<close>

theorem refills_monotone_within_capacity:
  "(balance acct \<noteq> NaN \<and> balance acct \<noteq> NInf \<and> amount \<noteq> PyFloat NaN \<longrightarrow>
        fle (balance acct) (balance (bank_exec (Deposit amount) acct)))
   \<and> (py_le (batteryLevel p) (PyInt 100) \<longrightarrow>
        py_le (batteryLevel p) (batteryLevel (phone_exec (Charge v) p))
        \<and> py_le (batteryLevel (phone_exec (Charge v) p)) (PyInt 100))
   \<and> (fle (fuel_level car) (Fin 100) \<longrightarrow>
        fle (fuel_level car) (fuel_level (car_exec (Refuel x) car))
        \<and> fle (fuel_level (car_exec (Refuel x) car)) (Fin 100))
   \<and> (fle (waterLevel cm) (maxWaterCapacity cm) \<and> waterLevel cm \<noteq> NInf
      \<and> w \<noteq> Num (PyFloat NaN) \<longrightarrow>
        fle (waterLevel cm) (waterLevel (cm_exec (RefillWater w) cm))
        \<and> fle (waterLevel (cm_exec (RefillWater w) cm)) (maxWaterCapacity cm))
   \<and> (coffeeBeans cm \<le> maxBeansCapacity cm \<longrightarrow>
        coffeeBeans cm \<le> coffeeBeans (cm_exec (AddBeans g) cm)
        \<and> coffeeBeans (cm_exec (AddBeans g) cm) \<le> maxBeansCapacity cm)"
proof (intro conjI impI, goal_cases)
  case 1
  then show ?case using deposit_monotone [of acct amount] by blast
next
  case 2
  then show ?case using charge_monotone [of p v] by blast
next
  case 3
  then show ?case using charge_monotone [of p v] by blast
next
  case 4
  then show ?case using refuel_monotone [of car x] by blast
next
  case 5
  then show ?case using refuel_monotone [of car x] by blast
next
  case 6
  then show ?case using refillWater_monotone [of cm w] by blast
next
  case 7
  then show ?case using refillWater_monotone [of cm w] by blast
next
  case 8
  then show ?case using addBeans_monotone [of cm g] by blast
next
  case 9
  then show ?case using addBeans_monotone [of cm g] by blast
qed

theorem refills_monotone_within_capacity_witness:
  "balance demo_account \<noteq> NaN \<and> balance demo_account \<noteq> NInf \<and> PyInt 500 \<noteq> PyFloat NaN
   \<and> balance (bank_exec (Deposit (PyInt 500)) demo_account) = Fin 1500
   \<and> fle (balance demo_account) (balance (bank_exec (Deposit (PyInt 500)) demo_account))
   \<and> py_le (batteryLevel demo_phone) (PyInt 100)
   \<and> batteryLevel (phone_exec (Charge (Num (PyInt 40))) demo_phone) = PyInt 100
   \<and> py_le (batteryLevel demo_phone) (batteryLevel (phone_exec (Charge (Num (PyInt 40))) demo_phone))
   \<and> fle (fuel_level demo_car) (Fin 100)
   \<and> fuel_level (car_exec (Refuel (PyInt 20)) demo_car) = Fin 100
   \<and> fle (fuel_level (car_exec (Refuel (PyInt 20)) demo_car)) (Fin 100)
   \<and> fle (waterLevel demo_coffee_maker) (maxWaterCapacity demo_coffee_maker)
   \<and> waterLevel demo_coffee_maker \<noteq> NInf \<and> Num (PyFloat (Fin 0.5)) \<noteq> Num (PyFloat NaN)
   \<and> waterLevel (cm_exec (RefillWater (Num (PyFloat (Fin 0.5)))) demo_coffee_maker) = Fin 2
   \<and> fle (waterLevel demo_coffee_maker)
        (waterLevel (cm_exec (RefillWater (Num (PyFloat (Fin 0.5)))) demo_coffee_maker))
   \<and> coffeeBeans demo_coffee_maker \<le> maxBeansCapacity demo_coffee_maker
   \<and> coffeeBeans (cm_exec (AddBeans (Num (PyInt 100))) demo_coffee_maker) = 250
   \<and> coffeeBeans (cm_exec (AddBeans (Num (PyInt 100))) demo_coffee_maker)
        \<le> maxBeansCapacity demo_coffee_maker"
proof -
  note T = refills_monotone_within_capacity [where acct = demo_account and amount = "PyInt 500"
      and p = demo_phone and v = "Num (PyInt 40)" and car = demo_car and x = "PyInt 20"
      and cm = demo_coffee_maker and w = "Num (PyFloat (Fin 0.5))" and g = "Num (PyInt 100)"]
  have h: "balance demo_account \<noteq> NaN" "balance demo_account \<noteq> NInf" "PyInt 500 \<noteq> PyFloat NaN"
    "py_le (batteryLevel demo_phone) (PyInt 100)" "fle (fuel_level demo_car) (Fin 100)"
    "fle (waterLevel demo_coffee_maker) (maxWaterCapacity demo_coffee_maker)"
    "waterLevel demo_coffee_maker \<noteq> NInf" "Num (PyFloat (Fin 0.5)) \<noteq> Num (PyFloat NaN)"
    "coffeeBeans demo_coffee_maker \<le> maxBeansCapacity demo_coffee_maker"
    by (simp_all add: demo_account_def demo_car_def demo_phone_def demo_coffee_maker_def
      BankAccount_init_def Car_init_def Smartphone_init_def CoffeeMaker_init_def
      py_min_def py_max_def py_lt_def py_gt_def py_le_def fmax_def)
  have v: "balance (bank_exec (Deposit (PyInt 500)) demo_account) = Fin 1500"
    "batteryLevel (phone_exec (Charge (Num (PyInt 40))) demo_phone) = PyInt 100"
    "fuel_level (car_exec (Refuel (PyInt 20)) demo_car) = Fin 100"
    "waterLevel (cm_exec (RefillWater (Num (PyFloat (Fin 0.5)))) demo_coffee_maker) = Fin 2"
    "coffeeBeans (cm_exec (AddBeans (Num (PyInt 100))) demo_coffee_maker) = 250"
    by (simp_all add: demo_account_def demo_car_def demo_phone_def demo_coffee_maker_def
      BankAccount_init_def Car_init_def Smartphone_init_def CoffeeMaker_init_def
      deposit_def charge_def car_exec_def refuel_def refillWater_def addBeans_def
      py_min_def py_max_def py_lt_def py_gt_def py_le_def fmin_def fmax_def float_limit_def Let_def)
  from T h have r: "fle (balance demo_account) (balance (bank_exec (Deposit (PyInt 500)) demo_account))"
    "py_le (batteryLevel demo_phone) (batteryLevel (phone_exec (Charge (Num (PyInt 40))) demo_phone))"
    "fle (fuel_level (car_exec (Refuel (PyInt 20)) demo_car)) (Fin 100)"
    "fle (waterLevel demo_coffee_maker)
        (waterLevel (cm_exec (RefillWater (Num (PyFloat (Fin 0.5)))) demo_coffee_maker))"
    "coffeeBeans (cm_exec (AddBeans (Num (PyInt 100))) demo_coffee_maker)
        \<le> maxBeansCapacity demo_coffee_maker"
    by blast+
  show ?thesis
    by (intro conjI h v r)
qed


text \<open>
  Claim C3. The constructors of \<open>Car\<close> and \<open>CoffeeMaker\<close> store a level above the
  maximum as it is given, and from such an object a refill lowers the quantity:
  \<open>refuel(1.0)\<close> takes a car built with fuel level 150 down to 100, and
  \<open>refillWater(0.1)\<close> takes a coffee maker built with 5 litres down to 2 (reporting
  that -3 litres were added).
\<close>

theorem refuel_above_range_lowers_fuel:
  "fuel_level (Car_init ''Toyota'' ''Camry'' 2023 ''Blue'' (Fin 150) False) = Fin 150
   \<and> refuel (PyFloat (Fin 1)) (Car_init ''Toyota'' ''Camry'' 2023 ''Blue'' (Fin 150) False)
       = Inr (Refueled (Fin 100), Car_init ''Toyota'' ''Camry'' 2023 ''Blue'' (Fin 100) False)
   \<and> flt (fuel_level (car_exec (Refuel (PyFloat (Fin 1)))
          (Car_init ''Toyota'' ''Camry'' 2023 ''Blue'' (Fin 150) False)))
        (fuel_level (Car_init ''Toyota'' ''Camry'' 2023 ''Blue'' (Fin 150) False))
   \<and> waterLevel (CoffeeMaker_init ''Keurig'' (Fin 5) 150 ''medium'') = Fin 5
   \<and> refillWater (Num (PyFloat (Fin 0.1))) (CoffeeMaker_init ''Keurig'' (Fin 5) 150 ''medium'')
       = Inr (\<lparr>success = False, message = WaterTankFull (Fin (- 3)) (Fin 3.1)\<rparr>,
              (CoffeeMaker_init ''Keurig'' (Fin 5) 150 ''medium'')\<lparr>waterLevel := Fin 2\<rparr>)"
  by (simp add: refuel_def car_exec_def Car_init_def refillWater_def CoffeeMaker_init_def
      py_le_def fsub_def fmin_def fmax_def Let_def)


section \<open>Range invariants\<close>

lemma phone_init_range:
  "py_le (PyInt 0) (batteryLevel (Smartphone_init b m sc bl))
   \<and> py_le (batteryLevel (Smartphone_init b m sc bl)) (PyInt 100)"
  by (cases "exact bl")
     (auto simp add: Smartphone_init_def py_min_def py_max_def py_lt_def py_gt_def py_le_def)

lemma charge_range:
  assumes "py_le (PyInt 0) l \<and> py_le l (PyInt 100)" and "\<not> py_lt a (PyInt 0)"
    and "py_add l a = Inr s"
  shows "py_le (PyInt 0) (py_min (PyInt 100) s) \<and> py_le (py_min (PyInt 100) s) (PyInt 100)"
proof -
  have "exact s = fadd (exact l) (exact a)" using assms(3) by (rule py_add_exact)
  with assms(1,2) show ?thesis
    by (cases "exact l"; cases "exact a")
       (auto simp add: py_min_def py_lt_def py_le_def)
qed

lemma useBattery_range:
  assumes "py_le (PyInt 0) l \<and> py_le l (PyInt 100)" and "\<not> py_lt a (PyInt 0)"
    and "py_sub l a = Inr d"
  shows "py_le (PyInt 0) (py_max (PyInt 0) d) \<and> py_le (py_max (PyInt 0) d) (PyInt 100)"
proof -
  have "exact d = fsub (exact l) (exact a)" using assms(3) by (rule py_sub_exact)
  with assms(1,2) show ?thesis
    by (cases "exact l"; cases "exact a")
       (auto simp add: py_max_def py_gt_def py_lt_def py_le_def fsub_def)
qed

lemma phone_exec_range:
  assumes "py_le (PyInt 0) (batteryLevel s) \<and> py_le (batteryLevel s) (PyInt 100)"
  shows "py_le (PyInt 0) (batteryLevel (phone_exec c s))
         \<and> py_le (batteryLevel (phone_exec c s)) (PyInt 100)"
proof (cases c)
  case (Charge v)
  with assms charge_range [OF assms] show ?thesis
    by (cases v) (auto simp add: charge_def Let_def split: sum.splits)
next
  case (UseBattery v)
  with assms useBattery_range [OF assms] show ?thesis
    by (cases v) (auto simp add: useBattery_def Let_def split: sum.splits)
next
  case (Unlock pin)
  with assms show ?thesis by (simp add: unlock_def Let_def)
next
  case Lock
  with assms show ?thesis by (simp add: lock_def)
qed

lemma phone_fold_range:
  "py_le (PyInt 0) (batteryLevel s) \<and> py_le (batteryLevel s) (PyInt 100) \<Longrightarrow>
   py_le (PyInt 0) (batteryLevel (fold phone_exec calls s))
   \<and> py_le (batteryLevel (fold phone_exec calls s)) (PyInt 100)"
proof (induction calls arbitrary: s)
  case Nil
  then show ?case by simp
next
  case (Cons c calls)
  from Cons.IH [OF phone_exec_range [OF Cons.prems, of c]] show ?case by simp
qed


text \<open>
  The battery level of a phone is within 0 and 100 after the constructor, whatever level
  it is given, and after every sequence of method calls, whatever their arguments.
\<close>

theorem phone_battery_in_range:
  "py_le (PyInt 0) (batteryLevel (phone_run calls (Smartphone_init b m sc bl)))
   \<and> py_le (batteryLevel (phone_run calls (Smartphone_init b m sc bl))) (PyInt 100)"
  unfolding phone_run_def by (rule phone_fold_range [OF phone_init_range])


lemma drive_range:
  assumes "fle (Fin 0) (fuel_level s) \<and> fle (fuel_level s) (Fin 100)"
    and "distance \<noteq> PyFloat NaN"
  shows "fle (Fin 0) (fuel_level (car_exec (Drive distance) s))
         \<and> fle (fuel_level (car_exec (Drive distance) s)) (Fin 100)"
proof (cases "to_float distance")
  case (Inl e)
  with assms(1) show ?thesis by (simp add: car_exec_def drive_def)
next
  case (Inr d)
  then have ex: "exact distance = d" by (rule to_float_exact)
  from Inr assms(2) have "d \<noteq> NaN" by (cases distance) (auto split: if_splits)
  then show ?thesis
    using assms(1) Inr ex
    by (cases "fuel_level s"; cases d)
       (simp_all add: car_exec_def drive_def py_le_def fsub_def fmul_one fdiv_one Let_def)
qed

lemma refuel_range:
  assumes "fle (Fin 0) (fuel_level s) \<and> fle (fuel_level s) (Fin 100)"
  shows "fle (Fin 0) (fuel_level (car_exec (Refuel amount) s))
         \<and> fle (fuel_level (car_exec (Refuel amount) s)) (Fin 100)"
proof (cases "to_float amount")
  case (Inl e)
  with assms(1) show ?thesis by (simp add: car_exec_def refuel_def)
next
  case (Inr a)
  then have ex: "exact amount = a" by (rule to_float_exact)
  show ?thesis
    using assms(1) Inr ex
    by (cases "fuel_level s"; cases a)
       (simp_all add: car_exec_def refuel_def py_le_def fmin_def Let_def)
qed

lemma car_exec_range:
  assumes "fle (Fin 0) (fuel_level s) \<and> fle (fuel_level s) (Fin 100)"
    and "c \<noteq> Drive (PyFloat NaN)"
  shows "fle (Fin 0) (fuel_level (car_exec c s)) \<and> fle (fuel_level (car_exec c s)) (Fin 100)"
proof (cases c)
  case (Drive distance)
  with assms drive_range [of s distance] show ?thesis by simp
next
  case (Refuel amount)
  with assms refuel_range [of s amount] show ?thesis by simp
qed (use assms in \<open>simp_all add: car_exec_def start_engine_def stop_engine_def\<close>)

lemma car_fold_range:
  "fle (Fin 0) (fuel_level s) \<and> fle (fuel_level s) (Fin 100) \<Longrightarrow>
   \<forall>c \<in> set calls. c \<noteq> Drive (PyFloat NaN) \<Longrightarrow>
   fle (Fin 0) (fuel_level (fold car_exec calls s))
   \<and> fle (fuel_level (fold car_exec calls s)) (Fin 100)"
proof (induction calls arbitrary: s)
  case Nil
  then show ?case by simp
next
  case (Cons c calls)
  from Cons.prems have "c \<noteq> Drive (PyFloat NaN)" "\<forall>c \<in> set calls. c \<noteq> Drive (PyFloat NaN)"
    by simp_all
  from Cons.IH [OF car_exec_range [OF Cons.prems(1) this(1)] this(2)] show ?case by simp
qed


text \<open>
  The fuel level of a car built with a fuel level within 0 and 100 stays within 0 and 100
  after every sequence of method calls in which no distance driven is NaN.
\<close>

theorem car_fuel_in_range:
  "fle (Fin 0) f \<Longrightarrow> fle f (Fin 100) \<Longrightarrow> \<forall>c \<in> set calls. c \<noteq> Drive (PyFloat NaN) \<Longrightarrow>
   fle (Fin 0) (fuel_level (car_run calls (Car_init mk md y col f e)))
   \<and> fle (fuel_level (car_run calls (Car_init mk md y col f e))) (Fin 100)"
  unfolding car_run_def by (rule car_fold_range) (simp_all add: Car_init_def)

theorem car_fuel_in_range_witness:
  "fle (Fin 0) (Fin 100) \<and> fle (Fin 100) (Fin 100)
   \<and> Drive (PyFloat NaN) \<notin> set [StartEngine, Drive (PyInt 25), Drive (PyInt 30), Refuel (PyInt 20)]
   \<and> fuel_level (car_run [StartEngine, Drive (PyInt 25), Drive (PyInt 30), Refuel (PyInt 20)]
        demo_car) = Fin 65
   \<and> fle (Fin 0) (fuel_level (car_run [StartEngine, Drive (PyInt 25), Drive (PyInt 30),
        Refuel (PyInt 20)] demo_car))
   \<and> fle (fuel_level (car_run [StartEngine, Drive (PyInt 25), Drive (PyInt 30),
        Refuel (PyInt 20)] demo_car)) (Fin 100)"
proof -
  have v: "fuel_level (car_run [StartEngine, Drive (PyInt 25), Drive (PyInt 30),
      Refuel (PyInt 20)] demo_car) = Fin 65"
    by (simp add: demo_car_def car_run_def car_exec_def Car_init_def start_engine_def drive_def
        refuel_def py_le_def fsub_def fmin_def float_limit_def Let_def)
  from car_fuel_in_range [of "Fin 100"
      "[StartEngine, Drive (PyInt 25), Drive (PyInt 30), Refuel (PyInt 20)]"
      "''Toyota''" "''Camry''" 2023 "''Blue''" False] v
  show ?thesis by (simp add: demo_car_def)
qed


text \<open>
  Claim C4. \<open>Car.__init__\<close> stores the fuel level it is given without clamping it, so
  a car built with fuel level 150 (or -5) is outside 0 to 100 from the start, and still
  is after starting the engine and driving 10 units. \<open>Smartphone.__init__\<close> clamps:
  a phone built with battery level 150 has battery level 100.
\<close>

theorem car_init_stores_fuel_unclamped:
  "fuel_level (Car_init ''Toyota'' ''Camry'' 2023 ''Blue'' (Fin 150) False) = Fin 150
   \<and> \<not> fle (fuel_level (Car_init ''Toyota'' ''Camry'' 2023 ''Blue'' (Fin 150) False)) (Fin 100)
   \<and> fuel_level (car_run [StartEngine, Drive (PyInt 10)]
        (Car_init ''Toyota'' ''Camry'' 2023 ''Blue'' (Fin 150) False)) = Fin 140
   \<and> fuel_level (Car_init ''Toyota'' ''Camry'' 2023 ''Blue'' (Fin (- 5)) False) = Fin (- 5)
   \<and> \<not> fle (Fin 0) (fuel_level (Car_init ''Toyota'' ''Camry'' 2023 ''Blue'' (Fin (- 5)) False))
   \<and> batteryLevel (Smartphone_init ''Apple'' ''iPhone 14'' 256 (PyInt 150)) = PyInt 100"
  by (simp add: Car_init_def car_run_def car_exec_def start_engine_def drive_def Let_def
      Smartphone_init_def py_min_def py_max_def py_lt_def py_gt_def py_le_def fsub_def
      float_limit_def)


end
